theory Spec2Isabelle
  imports Complex_Main
begin

section \<open>Exceptions and tensors\<close>

text \<open>
  Every exception the adapter can raise is a value. \<open>NotImplementedError\<close> and
  \<open>KeyError\<close> carry the message and the missing key. \<open>ShapeError\<close> is the failure of
  the weight loader on tensors of different shapes.
\<close>

datatype error =
    NotImplementedError string
  | KeyError string
  | ValueError
  | TypeError
  | IndexError
  | RuntimeError
  | AttributeError
  | ShapeError

definition bind_result :: "error + 'a \<Rightarrow> ('a \<Rightarrow> error + 'b) \<Rightarrow> error + 'b" where
  "bind_result r f = (case r of Inl e \<Rightarrow> Inl e | Inr x \<Rightarrow> f x)"

text \<open>
  A tensor is its shape and its elements in row-major order; the element type plays the
  role of the dtype. A tensor is well formed when it has as many elements as its shape
  says.
\<close>

record 'a tensor =
  shape :: "nat list"
  data :: "'a list"

definition tensor_dim :: "'a tensor \<Rightarrow> nat" where
  "tensor_dim t = length (shape t)"

definition wf_tensor :: "'a tensor \<Rightarrow> bool" where
  "wf_tensor t = (length (data t) = prod_list (shape t))"

text \<open>Row-major position of a multi-index, and the element stored there.\<close>

fun flat_index :: "nat list \<Rightarrow> nat list \<Rightarrow> nat" where
  "flat_index ds js = foldl (\<lambda>acc (d, j). acc * d + j) 0 (zip ds js)"

definition tensor_at :: "'a tensor \<Rightarrow> nat list \<Rightarrow> 'a" where
  "tensor_at t js = data t ! flat_index (shape t) js"

section \<open>Half precision\<close>

text \<open>
  The additive mask is computed in \<open>torch.float16\<close> from an integer mask. Every value that
  arises is an integer, an infinity or NaN, so a finite half is carried as the integer it
  denotes; the sign of zero is not distinguished. \<open>half_round\<close> is round-to-nearest-even
  onto the 11-bit significand, overflowing to infinity above the largest finite half
  65504.
\<close>

datatype half = Finite int | PosInf | NegInf | NaN

fun ilog2 :: "nat \<Rightarrow> nat" where
  "ilog2 n = (if n < 2 then 0 else Suc (ilog2 (n div 2)))"

declare ilog2.simps [simp del]

definition half_round :: "int \<Rightarrow> half" where
  "half_round x =
     (let a = \<bar>x\<bar> in
      if a < 2048 then Finite x
      else
        let ulp = 2 ^ (ilog2 (nat a) - 10);
            q = a div ulp;
            r = a mod ulp;
            q' = (if 2 * r < ulp then q
                  else if ulp < 2 * r then q + 1
                  else if even q then q else q + 1);
            m = q' * ulp
        in if 65504 < m then (if x < 0 then NegInf else PosInf)
           else Finite (sgn x * m))"

definition finfo_float16_min :: half where
  "finfo_float16_min = Finite (- 65504)"

fun half_sub :: "half \<Rightarrow> half \<Rightarrow> half" where
  "half_sub NaN _ = NaN"
| "half_sub _ NaN = NaN"
| "half_sub (Finite x) (Finite y) = half_round (x - y)"
| "half_sub PosInf PosInf = NaN"
| "half_sub NegInf NegInf = NaN"
| "half_sub PosInf _ = PosInf"
| "half_sub NegInf _ = NegInf"
| "half_sub (Finite x) PosInf = NegInf"
| "half_sub (Finite x) NegInf = PosInf"

fun half_sign :: "half \<Rightarrow> int" where
  "half_sign (Finite x) = sgn x"
| "half_sign PosInf = 1"
| "half_sign NegInf = - 1"
| "half_sign NaN = 0"

fun half_mul :: "half \<Rightarrow> half \<Rightarrow> half" where
  "half_mul NaN _ = NaN"
| "half_mul _ NaN = NaN"
| "half_mul (Finite x) (Finite y) = half_round (x * y)"
| "half_mul a b =
     (if half_sign a * half_sign b = 0 then NaN
      else if 0 < half_sign a * half_sign b then PosInf else NegInf)"

section \<open>The attention mask\<close>

text \<open>
  \<open>get_extended_attention_mask\<close>: a rank 3 mask gets a unit axis at position 1, a rank 2
  mask two of them; any other rank raises \<open>ValueError\<close>. Inserting unit axes leaves the
  row-major elements in place. The mask is then converted to half precision and turned
  into \<open>(1.0 - mask) * torch.finfo(torch.float16).min\<close>, element by element.
\<close>

definition to_float16 :: "int tensor \<Rightarrow> half tensor" where
  "to_float16 t = \<lparr>shape = shape t, data = map half_round (data t)\<rparr>"

definition get_extended_attention_mask :: "int tensor \<Rightarrow> nat list \<Rightarrow> error + half tensor" where
  "get_extended_attention_mask attention_mask input_shape =
     bind_result
       (if tensor_dim attention_mask = 3 then
          Inr \<lparr>shape = [shape attention_mask ! 0, 1, shape attention_mask ! 1, shape attention_mask ! 2],
               data = data attention_mask\<rparr>
        else if tensor_dim attention_mask = 2 then
          Inr \<lparr>shape = [shape attention_mask ! 0, 1, 1, shape attention_mask ! 1],
               data = data attention_mask\<rparr>
        else Inl ValueError)
       (\<lambda>extended_attention_mask.
          let extended_attention_mask = to_float16 extended_attention_mask;
              extended_attention_mask =
                \<lparr>shape = shape extended_attention_mask,
                 data = map (\<lambda>v. half_mul (half_sub (Finite 1) v) finfo_float16_min)
                          (data extended_attention_mask)\<rparr>
          in Inr extended_attention_mask)"

section \<open>Configuration, sub-modules and construction\<close>

text \<open>
  The fields of \<open>XLMRobertaConfig\<close> that the adapter reads.
\<close>

record config =
  output_attentions :: bool
  output_hidden_states :: bool
  use_return_dict :: bool
  is_decoder :: bool
  use_cache :: bool
  name_or_path :: string
  num_hidden_layers :: int

text \<open>
  The embeddings, the encoder stack and the pooler belong to the \<open>transformers\<close> library
  and are parameters here: functions that return a value or raise. The embeddings module
  may carry a buffered \<open>token_type_ids\<close> tensor. The encoder returns either a model output
  with named fields or, when it is asked for no return dict, a plain tuple whose first
  component is the last hidden state; \<open>'x\<close> stands for the values that the adapter only
  hands on (cached keys and values, hidden states, attentions).
\<close>

record embeddings_module =
  token_type_ids :: "int tensor option"
  embed :: "int tensor \<Rightarrow> int tensor \<Rightarrow> nat \<Rightarrow> error + real tensor"

record 'x encoder_model_output =
  enc_last_hidden_state :: "real tensor"
  enc_past_key_values :: 'x
  enc_hidden_states :: 'x
  enc_attentions :: 'x
  enc_cross_attentions :: 'x

datatype 'x encoder_outputs =
    EncoderModelOutput "'x encoder_model_output"
  | EncoderTuple "real tensor" "'x list"

type_synonym 'x encoder_module =
  "real tensor \<Rightarrow> half tensor \<Rightarrow> unit option list \<Rightarrow> bool \<Rightarrow> bool \<Rightarrow> bool \<Rightarrow> bool
     \<Rightarrow> error + 'x encoder_outputs"

type_synonym pooler_module = "real tensor \<Rightarrow> error + real tensor"

record 'x hf_model =
  hf_embeddings :: embeddings_module
  hf_encoder :: "'x encoder_module"
  hf_pooler :: "pooler_module option"

text \<open>
  A linear method is the unquantized one or some other (quantized) method; \<open>'q\<close> is
  whatever such a method carries.
\<close>

datatype 'q linear_method_base = UnquantizedLinearMethod | QuantizedLinearMethod 'q

fun isinstance_UnquantizedLinearMethod :: "'q linear_method_base \<Rightarrow> bool" where
  "isinstance_UnquantizedLinearMethod UnquantizedLinearMethod = True"
| "isinstance_UnquantizedLinearMethod (QuantizedLinearMethod _) = False"

record ('q, 'x) xlm_roberta_model =
  config :: config
  linear_method :: "'q linear_method_base option"
  embeddings :: embeddings_module
  encoder :: "'x encoder_module"
  pooler :: "pooler_module option"

text \<open>
  \<open>__init__\<close>: the two guards come first, in the source's order; only then is the
  external constructor \<open>XLMRobertaModelHF\<close> (a parameter) called and its three
  sub-modules kept.
\<close>

definition init ::
  "(config \<Rightarrow> error + 'x hf_model) \<Rightarrow> config \<Rightarrow> 'q linear_method_base option \<Rightarrow> 'l option
     \<Rightarrow> error + ('q, 'x) xlm_roberta_model" where
  "init XLMRobertaModelHF cfg lin_method lora_config =
     (if lin_method \<noteq> None \<and> \<not> isinstance_UnquantizedLinearMethod (the lin_method) then
        Inl (NotImplementedError
          (''XLMRobertaModel does not currently support quantization. '' @
           ''Please raise an issue if you would like this feature.''))
      else if lora_config \<noteq> None then
        Inl (NotImplementedError
          (''XLMRobertaModel does not currently support deployments with '' @
           ''LORA Adapters. Please raise an issue if you would like this feature.''))
      else
        bind_result (XLMRobertaModelHF cfg) (\<lambda>hf_model.
          Inr \<lparr>config = cfg, linear_method = lin_method,
               embeddings = hf_embeddings hf_model,
               encoder = hf_encoder hf_model,
               pooler = hf_pooler hf_model\<rparr>))"

section \<open>Weight loading\<close>

text \<open>
  Modelled from the spec: \<open>default_weight_loader\<close> lives in the serving framework's
  weight utilities. The spec's words: it "copies the tensor data into the destination
  using the default in-place loader (shape must match; a shape mismatch fails the load)".
\<close>

definition default_weight_loader :: "real tensor \<Rightarrow> real tensor \<Rightarrow> error + real tensor" where
  "default_weight_loader param loaded_weight =
     (if shape param = shape loaded_weight then Inr (param\<lparr>data := data loaded_weight\<rparr>)
      else Inl ShapeError)"

text \<open>
  \<open>load_weights\<close>: the parameters of the model are a dictionary from names to tensors,
  changed in place, so the function returns the dictionary it leaves behind together with
  its outcome. The weight source is the finite sequence of pairs that the iterator
  yields. A name that is not a key raises \<open>KeyError\<close> at \<open>params_dict[name]\<close>.
\<close>

fun load_weights ::
  "(string \<rightharpoonup> real tensor) \<Rightarrow> (string \<times> real tensor) list
     \<Rightarrow> (error + unit) \<times> (string \<rightharpoonup> real tensor)" where
  "load_weights params_dict [] = (Inr (), params_dict)"
| "load_weights params_dict ((name, loaded_weight) # rest) =
     (case params_dict name of
        None \<Rightarrow> (Inl (KeyError name), params_dict)
      | Some param \<Rightarrow>
          (case default_weight_loader param loaded_weight of
             Inl e \<Rightarrow> (Inl e, params_dict)
           | Inr param' \<Rightarrow> load_weights (params_dict(name \<mapsto> param')) rest))"

section \<open>Head mask and sampling hook\<close>

text \<open>
  \<open>get_head_mask\<close>: with no head mask the result is one \<open>None\<close> per hidden layer (a
  negative count gives the empty list, as list repetition does). The other branch calls
  \<open>self._convert_head_mask_to_5d\<close>, which the class does not define, so the attribute
  lookup raises.
\<close>

definition get_head_mask ::
  "real tensor option \<Rightarrow> int \<Rightarrow> bool \<Rightarrow> error + unit option list" where
  "get_head_mask head_mask n_hidden_layers is_attention_chunked =
     (if head_mask \<noteq> None then Inl AttributeError
      else Inr (replicate (nat n_hidden_layers) None))"

definition sample :: "'h \<Rightarrow> 'm \<Rightarrow> 'h" where
  "sample hidden_states sampling_metadata = hidden_states"

section \<open>Tensor operations used by forward inference\<close>

text \<open>\<open>range(0, stop, step)\<close> for a positive step.\<close>

definition py_range :: "nat \<Rightarrow> nat \<Rightarrow> nat list" where
  "py_range stop step = map (\<lambda>k. k * step) [0 ..< (stop + step - 1) div step]"

text \<open>
  \<open>t[start:stop, :]\<close>: two indices need a tensor of rank 2 at least (\<open>IndexError\<close>
  otherwise); the slice bounds are clipped to the leading dimension.
\<close>

definition slice_rows :: "'a tensor \<Rightarrow> nat \<Rightarrow> nat \<Rightarrow> error + 'a tensor" where
  "slice_rows t start stop =
     (case shape t of
        n # m # rest \<Rightarrow>
          let lo = min start n;
              hi = max lo (min stop n);
              row = prod_list (m # rest)
          in Inr \<lparr>shape = (hi - lo) # m # rest,
                  data = take ((hi - lo) * row) (drop (lo * row) (data t))\<rparr>
      | _ \<Rightarrow> Inl IndexError)"

text \<open>\<open>(t != v).int()\<close>.\<close>

definition ne_int :: "int tensor \<Rightarrow> int \<Rightarrow> int tensor" where
  "ne_int t v = \<lparr>shape = shape t, data = map (\<lambda>x. if x \<noteq> v then 1 else 0) (data t)\<rparr>"

definition torch_full :: "nat list \<Rightarrow> 'a \<Rightarrow> 'a tensor" where
  "torch_full ds v = \<lparr>shape = ds, data = replicate (prod_list ds) v\<rparr>"

text \<open>\<open>t[:, :stop]\<close> and \<open>t.expand(b, l)\<close> for the buffered token type ids.\<close>

definition slice_cols :: "'a tensor \<Rightarrow> nat \<Rightarrow> error + 'a tensor" where
  "slice_cols t stop =
     (case shape t of
        r # c # rest \<Rightarrow>
          let c' = min c stop; blk = prod_list rest
          in Inr \<lparr>shape = r # c' # rest,
                  data = concat (map (\<lambda>i. take (c' * blk) (drop (i * c * blk) (data t))) [0 ..< r])\<rparr>
      | _ \<Rightarrow> Inl IndexError)"

definition expand2 :: "'a tensor \<Rightarrow> nat \<Rightarrow> nat \<Rightarrow> error + 'a tensor" where
  "expand2 t b l =
     (case shape t of
        [r, c] \<Rightarrow>
          if (r = b \<or> r = 1) \<and> (c = l \<or> c = 1) then
            Inr \<lparr>shape = [b, l],
                 data = concat (map (\<lambda>i. map (\<lambda>j.
                          data t ! ((if r = 1 then 0 else i) * c + (if c = 1 then 0 else j)))
                          [0 ..< l]) [0 ..< b])\<rparr>
          else Inl RuntimeError
      | _ \<Rightarrow> Inl RuntimeError)"

text \<open>
  \<open>dense_embedding\<close> is \<open>hidden_state[:, 0]\<close>: the entry at position 0 of axis 1, for
  every index of axis 0. It needs rank 2 at least and a non-empty axis 1. The mask
  argument is not used.
\<close>

definition dense_embedding :: "real tensor \<Rightarrow> int tensor \<Rightarrow> error + real tensor" where
  "dense_embedding hidden_state attn_mask =
     (case shape hidden_state of
        b # l # rest \<Rightarrow>
          if l = 0 then Inl IndexError
          else
            let blk = prod_list rest
            in Inr \<lparr>shape = b # rest,
                    data = concat (map (\<lambda>i. take blk (drop (i * l * blk) (data hidden_state)))
                                       [0 ..< b])\<rparr>
      | _ \<Rightarrow> Inl IndexError)"

text \<open>
  \<open>torch.nn.functional.normalize(x, dim=-1)\<close> with the library's defaults \<open>p = 2\<close> and
  \<open>eps = 1e-12\<close>: every vector along the last axis is divided by the larger of its
  Euclidean norm and \<open>eps\<close>. The arithmetic is that of the real numbers; rounding is not
  modelled.
\<close>

definition rows_of :: "nat \<Rightarrow> 'a list \<Rightarrow> 'a list list" where
  "rows_of k xs =
     map (\<lambda>i. take k (drop (i * k) xs)) [0 ..< (if k = 0 then 0 else length xs div k)]"

definition l2_norm :: "real list \<Rightarrow> real" where
  "l2_norm v = sqrt (sum_list (map (\<lambda>x. x\<^sup>2) v))"

definition normalize_eps :: real where
  "normalize_eps = 1 / 10 ^ 12"

definition normalize_row :: "real list \<Rightarrow> real list" where
  "normalize_row v = map (\<lambda>x. x / max (l2_norm v) normalize_eps) v"

definition last_axis :: "'a tensor \<Rightarrow> nat" where
  "last_axis t = (if shape t = [] then 1 else last (shape t))"

definition normalize :: "real tensor \<Rightarrow> real tensor" where
  "normalize t =
     \<lparr>shape = shape t,
      data = concat (map normalize_row (rows_of (last_axis t) (data t)))\<rparr>"

section \<open>Forward inference\<close>

record input_metadata =
  slot_mapping :: "int tensor"

record 'x base_model_output =
  last_hidden_state :: "real tensor"
  pooler_output :: "real tensor option"
  past_key_values :: 'x
  hidden_states :: 'x
  attentions :: 'x
  cross_attentions :: 'x

text \<open>
  What one iteration appends to \<open>tensor_list\<close>: a tensor (the normalized dense
  embedding) or the \<open>BaseModelOutputWithPoolingAndCrossAttentions\<close> object.
\<close>

datatype 'x chunk_output =
    TensorOutput "real tensor"
  | ModelOutput "'x base_model_output"

text \<open>
  \<open>torch.cat(tensors, dim=0)\<close>: every element must be a tensor (\<open>TypeError\<close>
  otherwise), the list must not be empty, and the tensors must have rank 1 at least and
  agree on all axes but the first (\<open>RuntimeError\<close> otherwise).
\<close>

fun as_tensors :: "'x chunk_output list \<Rightarrow> error + real tensor list" where
  "as_tensors [] = Inr []"
| "as_tensors (TensorOutput t # rest) = bind_result (as_tensors rest) (\<lambda>ts. Inr (t # ts))"
| "as_tensors (ModelOutput _ # rest) = Inl TypeError"

definition torch_cat :: "'x chunk_output list \<Rightarrow> error + real tensor" where
  "torch_cat tensors =
     bind_result (as_tensors tensors) (\<lambda>ts.
       case ts of
         [] \<Rightarrow> Inl RuntimeError
       | t # _ \<Rightarrow>
           if shape t \<noteq> [] \<and> list_all (\<lambda>u. shape u \<noteq> [] \<and> tl (shape u) = tl (shape t)) ts then
             Inr \<lparr>shape = sum_list (map (\<lambda>u. hd (shape u)) ts) # tl (shape t),
                  data = concat (map data ts)\<rparr>
           else Inl RuntimeError)"

text \<open>
  One iteration of the loop of \<open>forward\<close> is \<open>forward_chunk\<close> below, for the start
  index and the value that the variable \<open>batch_size\<close> has when the iteration begins.
  The iteration assigns \<open>batch_size\<close> again, from the shape of the slice of
  \<open>input_ids\<close>, so the new value is returned with the output. \<open>attention_mask\<close> is an
  optional value because the source tests it against \<open>None\<close>. Unpacking \<open>ids.size()\<close>
  into two names needs rank 2 (\<open>ValueError\<close> otherwise).
\<close>

definition slot_attention_mask ::
  "input_metadata \<Rightarrow> nat \<Rightarrow> nat \<Rightarrow> error + int tensor option" where
  "slot_attention_mask meta start_index batch_size =
     bind_result (slice_rows (slot_mapping meta) start_index (start_index + batch_size))
       (\<lambda>slots. Inr (Some (ne_int slots (- 1))))"

definition resolve_attention_mask :: "int tensor option \<Rightarrow> nat \<Rightarrow> nat \<Rightarrow> int tensor" where
  "resolve_attention_mask attention_mask batch_size seq_length =
     (case attention_mask of
        None \<Rightarrow> torch_full [batch_size, seq_length] 1
      | Some m \<Rightarrow> m)"

definition encoder_outputs_first :: "'x encoder_outputs \<Rightarrow> real tensor" where
  "encoder_outputs_first eo =
     (case eo of
        EncoderModelOutput r \<Rightarrow> enc_last_hidden_state r
      | EncoderTuple t _ \<Rightarrow> t)"

text \<open>
  The token type ids of an iteration: the buffered tensor of the embeddings module, when
  it has one, cut to the sequence length and expanded to the batch; zeros otherwise.
\<close>

definition chunk_token_type_ids ::
  "embeddings_module \<Rightarrow> nat list \<Rightarrow> nat \<Rightarrow> nat \<Rightarrow> error + int tensor" where
  "chunk_token_type_ids emb input_shape batch_size seq_length =
     (case token_type_ids emb of
        Some buffered \<Rightarrow>
          bind_result (slice_cols buffered seq_length) (\<lambda>buffered_token_type_ids.
            expand2 buffered_token_type_ids batch_size seq_length)
      | None \<Rightarrow> Inr (torch_full input_shape 0))"

text \<open>\<open>self.pooler(sequence_output) if self.pooler is not None else None\<close>.\<close>

definition chunk_pooled_output ::
  "pooler_module option \<Rightarrow> real tensor \<Rightarrow> error + real tensor option" where
  "chunk_pooled_output pool sequence_output =
     (case pool of
        Some p \<Rightarrow> bind_result (p sequence_output) (\<lambda>pooled. Inr (Some pooled))
      | None \<Rightarrow> Inr None)"

text \<open>
  The \<open>BaseModelOutputWithPoolingAndCrossAttentions\<close> of an iteration; its fields are
  read off the encoder's result by name, which a plain tuple does not allow.
\<close>

definition chunk_model_output ::
  "'x encoder_outputs \<Rightarrow> real tensor \<Rightarrow> real tensor option \<Rightarrow> error + 'x base_model_output" where
  "chunk_model_output encoder_outputs sequence_output pooled_output =
     (case encoder_outputs of
        EncoderModelOutput r \<Rightarrow>
          Inr \<lparr>last_hidden_state = sequence_output,
               pooler_output = pooled_output,
               past_key_values = enc_past_key_values r,
               hidden_states = enc_hidden_states r,
               attentions = enc_attentions r,
               cross_attentions = enc_cross_attentions r\<rparr>
      | EncoderTuple _ _ \<Rightarrow> Inl AttributeError)"

text \<open>
  The iteration from the test of the mask against \<open>None\<close> to the value appended to
  \<open>tensor_list\<close>, for the \<open>batch_size\<close> and \<open>seq_length\<close> unpacked from the shape of
  \<open>ids\<close>.
\<close>

definition encode_chunk ::
  "('q, 'x) xlm_roberta_model \<Rightarrow> int tensor \<Rightarrow> int tensor option \<Rightarrow> nat \<Rightarrow> nat
     \<Rightarrow> error + 'x chunk_output" where
  "encode_chunk self ids attention_mask batch_size seq_length =
     (let out_attentions = output_attentions (config self);
          out_hidden_states = output_hidden_states (config self);
          return_dict = use_return_dict (config self);
          use_cache_flag = (if is_decoder (config self) then use_cache (config self) else False);
          input_shape = [batch_size, seq_length];
          past_key_values_length = 0;
          attention_mask =
            resolve_attention_mask attention_mask batch_size (seq_length + past_key_values_length)
      in
      bind_result (chunk_token_type_ids (embeddings self) input_shape batch_size seq_length)
        (\<lambda>token_type_ids.
      bind_result (get_extended_attention_mask attention_mask input_shape)
        (\<lambda>extended_attention_mask.
      bind_result (get_head_mask None (num_hidden_layers (config self)) False)
        (\<lambda>head_mask.
      bind_result (embed (embeddings self) ids token_type_ids past_key_values_length)
        (\<lambda>embedding_output.
      bind_result
        (encoder self embedding_output extended_attention_mask head_mask
           use_cache_flag out_attentions out_hidden_states return_dict)
        (\<lambda>encoder_outputs.
      let sequence_output = encoder_outputs_first encoder_outputs in
      bind_result (chunk_pooled_output (pooler self) sequence_output)
        (\<lambda>pooled_output.
      bind_result (chunk_model_output encoder_outputs sequence_output pooled_output)
        (\<lambda>output.
      if name_or_path (config self) = ''BAAI/bge-m3'' then
        bind_result (dense_embedding (last_hidden_state output) attention_mask)
          (\<lambda>output.
            let output = normalize output
            in Inr (TensorOutput output))
      else Inr (ModelOutput output)))))))))"

definition forward_chunk ::
  "('q, 'x) xlm_roberta_model \<Rightarrow> int tensor \<Rightarrow> input_metadata \<Rightarrow> nat \<Rightarrow> nat
     \<Rightarrow> error + (nat \<times> 'x chunk_output)" where
  "forward_chunk self input_ids meta start_index batch_size =
     bind_result (slice_rows input_ids start_index (start_index + batch_size)) (\<lambda>ids.
     bind_result (slot_attention_mask meta start_index batch_size) (\<lambda>attention_mask.
       case shape ids of
         [batch_size, seq_length] \<Rightarrow>
           bind_result (encode_chunk self ids attention_mask batch_size seq_length)
             (\<lambda>output. Inr (batch_size, output))
       | _ \<Rightarrow> Inl ValueError))"

text \<open>
  The loop over the start indices, threading \<open>batch_size\<close> and \<open>tensor_list\<close>; an
  exception in an iteration ends the call.
\<close>

fun forward_loop ::
  "('q, 'x) xlm_roberta_model \<Rightarrow> int tensor \<Rightarrow> input_metadata \<Rightarrow> nat list \<Rightarrow> nat
     \<Rightarrow> 'x chunk_output list \<Rightarrow> error + (nat \<times> 'x chunk_output list)" where
  "forward_loop self input_ids meta [] batch_size tensor_list = Inr (batch_size, tensor_list)"
| "forward_loop self input_ids meta (start_index # rest) batch_size tensor_list =
     bind_result (forward_chunk self input_ids meta start_index batch_size)
       (\<lambda>(batch_size', output).
          forward_loop self input_ids meta rest batch_size' (tensor_list @ [output]))"

text \<open>
  \<open>forward\<close>: \<open>batch_size\<close> starts at 12 and the start indices are
  \<open>range(0, input_ids.shape[0], 12)\<close>, fixed before the first iteration. The positions
  and the key/value caches are not read.
\<close>

definition forward ::
  "('q, 'x) xlm_roberta_model \<Rightarrow> int tensor \<Rightarrow> 'p \<Rightarrow> 'k \<Rightarrow> input_metadata
     \<Rightarrow> error + real tensor" where
  "forward self input_ids positions kv_caches meta =
     (case shape input_ids of
        [] \<Rightarrow> Inl IndexError
      | n # _ \<Rightarrow>
          bind_result (forward_loop self input_ids meta (py_range n 12) 12 [])
            (\<lambda>(batch_size, tensor_list). torch_cat tensor_list))"

section \<open>A small concrete model\<close>

text \<open>
  A stand-in for the external sub-modules, used to run the adapter on concrete inputs:
  the embeddings module has a buffer of four token type ids and maps every token id to
  a one-dimensional feature, the encoder scales its input by a constant \<open>c\<close> and
  returns a model output, and there is no pooler.
\<close>

definition demo_config :: "string \<Rightarrow> config" where
  "demo_config name =
     \<lparr>output_attentions = False, output_hidden_states = False, use_return_dict = True,
      is_decoder = False, use_cache = False, name_or_path = name, num_hidden_layers = 2\<rparr>"

definition demo_embeddings :: embeddings_module where
  "demo_embeddings =
     \<lparr>token_type_ids = Some \<lparr>shape = [1, 4], data = [0, 0, 0, 0]\<rparr>,
      embed = (\<lambda>ids tti pkv. Inr \<lparr>shape = shape ids @ [1], data = map real_of_int (data ids)\<rparr>)\<rparr>"

definition demo_encoder :: "real \<Rightarrow> unit encoder_module" where
  "demo_encoder c = (\<lambda>emb ext hm uc oa oh rd.
     Inr (EncoderModelOutput
       \<lparr>enc_last_hidden_state = \<lparr>shape = shape emb, data = map (\<lambda>x. c * x) (data emb)\<rparr>,
        enc_past_key_values = (), enc_hidden_states = (), enc_attentions = (),
        enc_cross_attentions = ()\<rparr>))"

definition demo_model :: "string \<Rightarrow> real \<Rightarrow> (unit, unit) xlm_roberta_model" where
  "demo_model name c =
     \<lparr>config = demo_config name, linear_method = None, embeddings = demo_embeddings,
      encoder = demo_encoder c, pooler = None\<rparr>"

text \<open>
  A second stand-in whose encoder reads the additive mask: it keeps a feature where the
  mask holds 0 and replaces it by 0 elsewhere.
\<close>

definition demo_masking_encoder :: "unit encoder_module" where
  "demo_masking_encoder = (\<lambda>emb ext hm uc oa oh rd.
     Inr (EncoderModelOutput
       \<lparr>enc_last_hidden_state =
          \<lparr>shape = shape emb,
           data = map (\<lambda>(x, m). if m = Finite 0 then x else 0) (zip (data emb) (data ext))\<rparr>,
        enc_past_key_values = (), enc_hidden_states = (), enc_attentions = (),
        enc_cross_attentions = ()\<rparr>))"

definition demo_masking_model :: "string \<Rightarrow> (unit, unit) xlm_roberta_model" where
  "demo_masking_model name =
     \<lparr>config = demo_config name, linear_method = None, embeddings = demo_embeddings,
      encoder = demo_masking_encoder, pooler = None\<rparr>"

section \<open>Properties of the attention mask\<close>

text \<open>
  Small integers are halves; the most negative finite half is a fixed point of the
  rounding, and no finite half lies below it.
\<close>

lemma half_round_small: "\<bar>x\<bar> < 2048 \<Longrightarrow> half_round x = Finite x"
  by (simp add: half_round_def)

lemma ilog2_65504: "ilog2 65504 = 15"
  by (simp add: ilog2.simps)

lemma half_round_min: "half_round (- 65504) = Finite (- 65504)"
  by (simp add: half_round_def ilog2_65504)

lemma half_round_lower:
  assumes "half_round x = Finite y"
  shows "- 65504 \<le> y"
proof (cases "\<bar>x\<bar> < 2048")
  case True
  then show ?thesis using assms by (simp add: half_round_def)
next
  case False
  define ulp :: int where "ulp = 2 ^ (ilog2 (nat \<bar>x\<bar>) - 10)"
  define q where "q = \<bar>x\<bar> div ulp"
  define q' where "q' = (if 2 * (\<bar>x\<bar> mod ulp) < ulp then q
                  else if ulp < 2 * (\<bar>x\<bar> mod ulp) then q + 1
                  else if even q then q else q + 1)"
  have hr: "half_round x = (if 65504 < q' * ulp then (if x < 0 then NegInf else PosInf)
           else Finite (sgn x * (q' * ulp)))"
    using False unfolding half_round_def Let_def ulp_def q_def q'_def by simp
  have m: "q' * ulp \<le> 65504" and y: "y = sgn x * (q' * ulp)"
    using assms hr by (auto split: if_splits)
  have "0 < ulp" by (simp add: ulp_def)
  then have "0 \<le> q" by (simp add: q_def pos_imp_zdiv_nonneg_iff)
  then have "0 \<le> q'" by (simp add: q'_def)
  then have "0 \<le> q' * ulp" using \<open>0 < ulp\<close> by simp
  then show ?thesis using m y by (cases "x < 0"; cases "x = 0") (simp_all add: sgn_if)
qed

lemma mask_value_attended: "half_mul (half_sub (Finite 1) (half_round 1)) finfo_float16_min = Finite 0"
  by (simp add: half_round_small finfo_float16_min_def)

lemma mask_value_masked: "half_mul (half_sub (Finite 1) (half_round 0)) finfo_float16_min = finfo_float16_min"
  by (simp add: half_round_small finfo_float16_min_def half_round_min)

lemma index_bound2: "b < B \<Longrightarrow> l < L \<Longrightarrow> b * L + l < B * (L::nat)"
proof -
  assume b: "b < B" and l: "l < L"
  have "b * L + l < b * L + L" using l by simp
  also have "\<dots> = Suc b * L" by simp
  also have "\<dots> \<le> B * L" using b by (intro mult_le_mono1) simp
  finally show ?thesis .
qed

lemma index_bound3: "b < B \<Longrightarrow> i < L \<Longrightarrow> j < M \<Longrightarrow> (b * L + i) * M + j < B * L * (M::nat)"
  using index_bound2 [of "b * L + i" "B * L" j M] index_bound2 [of b B i L] by simp

text \<open>
  C3: a well-formed mask of shape \<open>(B, L)\<close> is expanded to shape \<open>(B, 1, 1, L)\<close> and one
  of shape \<open>(B, L, M)\<close> (in particular \<open>(B, L, L)\<close>) to \<open>(B, 1, L, M)\<close>. The result is
  a half-precision tensor (its element type is \<open>half\<close>); where the mask holds 1 the
  result holds 0, and where the mask holds 0 it holds the most negative finite half.
\<close>

theorem get_extended_attention_mask_shape_values:
  assumes wf: "wf_tensor m"
  shows "(shape m = [B, L] \<longrightarrow>
            (\<exists>r. get_extended_attention_mask m ishape = Inr r \<and> shape r = [B, 1, 1, L] \<and>
                 wf_tensor r \<and>
                 (\<forall>b<B. \<forall>l<L.
                    (tensor_at m [b, l] = 1 \<longrightarrow> tensor_at r [b, 0, 0, l] = Finite 0) \<and>
                    (tensor_at m [b, l] = 0 \<longrightarrow> tensor_at r [b, 0, 0, l] = finfo_float16_min)))) \<and>
         (shape m = [B, L, M] \<longrightarrow>
            (\<exists>r. get_extended_attention_mask m ishape = Inr r \<and> shape r = [B, 1, L, M] \<and>
                 wf_tensor r \<and>
                 (\<forall>b<B. \<forall>i<L. \<forall>j<M.
                    (tensor_at m [b, i, j] = 1 \<longrightarrow> tensor_at r [b, 0, i, j] = Finite 0) \<and>
                    (tensor_at m [b, i, j] = 0 \<longrightarrow> tensor_at r [b, 0, i, j] = finfo_float16_min))))"
proof (intro conjI impI)
  assume s: "shape m = [B, L]"
  have len: "length (data m) = B * L" using wf s by (simp add: wf_tensor_def)
  let ?f = "\<lambda>v. half_mul (half_sub (Finite 1) v) finfo_float16_min"
  let ?r = "\<lparr>shape = [B, 1, 1, L], data = map ?f (map half_round (data m))\<rparr>"
  have eq: "get_extended_attention_mask m ishape = Inr ?r"
    using s by (simp add: get_extended_attention_mask_def bind_result_def tensor_dim_def
        to_float16_def Let_def)
  have vals: "(tensor_at m [b, l] = 1 \<longrightarrow> tensor_at ?r [b, 0, 0, l] = Finite 0) \<and>
              (tensor_at m [b, l] = 0 \<longrightarrow> tensor_at ?r [b, 0, 0, l] = finfo_float16_min)"
    if "b < B" "l < L" for b l
  proof -
    have "b * L + l < length (data m)" using that len index_bound2 by simp
    then show ?thesis
      using s by (simp add: tensor_at_def mask_value_attended mask_value_masked)
  qed
  have "wf_tensor ?r" using len by (simp add: wf_tensor_def)
  with eq vals show "\<exists>r. get_extended_attention_mask m ishape = Inr r \<and> shape r = [B, 1, 1, L] \<and>
                 wf_tensor r \<and>
                 (\<forall>b<B. \<forall>l<L.
                    (tensor_at m [b, l] = 1 \<longrightarrow> tensor_at r [b, 0, 0, l] = Finite 0) \<and>
                    (tensor_at m [b, l] = 0 \<longrightarrow> tensor_at r [b, 0, 0, l] = finfo_float16_min))"
    by (intro exI [of _ ?r]) simp
next
  assume s: "shape m = [B, L, M]"
  have len: "length (data m) = B * L * M" using wf s by (simp add: wf_tensor_def)
  let ?f = "\<lambda>v. half_mul (half_sub (Finite 1) v) finfo_float16_min"
  let ?r = "\<lparr>shape = [B, 1, L, M], data = map ?f (map half_round (data m))\<rparr>"
  have eq: "get_extended_attention_mask m ishape = Inr ?r"
    using s by (simp add: get_extended_attention_mask_def bind_result_def tensor_dim_def
        to_float16_def Let_def)
  have vals: "(tensor_at m [b, i, j] = 1 \<longrightarrow> tensor_at ?r [b, 0, i, j] = Finite 0) \<and>
              (tensor_at m [b, i, j] = 0 \<longrightarrow> tensor_at ?r [b, 0, i, j] = finfo_float16_min)"
    if "b < B" "i < L" "j < M" for b i j
  proof -
    have "(b * L + i) * M + j < length (data m)" using that len index_bound3 by simp
    then show ?thesis
      using s by (simp add: tensor_at_def mask_value_attended mask_value_masked)
  qed
  have "wf_tensor ?r" using len by (simp add: wf_tensor_def)
  with eq vals show "\<exists>r. get_extended_attention_mask m ishape = Inr r \<and> shape r = [B, 1, L, M] \<and>
                 wf_tensor r \<and>
                 (\<forall>b<B. \<forall>i<L. \<forall>j<M.
                    (tensor_at m [b, i, j] = 1 \<longrightarrow> tensor_at r [b, 0, i, j] = Finite 0) \<and>
                    (tensor_at m [b, i, j] = 0 \<longrightarrow> tensor_at r [b, 0, i, j] = finfo_float16_min))"
    by (intro exI [of _ ?r]) simp
qed

theorem get_extended_attention_mask_shape_values_witness:
  "(\<exists>r. get_extended_attention_mask \<lparr>shape = [1, 2], data = [1, 0]\<rparr> [1, 2] = Inr r \<and>
        shape r = [1, 1, 1, 2] \<and>
        tensor_at r [0, 0, 0, 0] = Finite 0 \<and> tensor_at r [0, 0, 0, 1] = finfo_float16_min) \<and>
   (\<exists>r. get_extended_attention_mask \<lparr>shape = [1, 1, 2], data = [0, 1]\<rparr> [1, 2] = Inr r \<and>
        shape r = [1, 1, 1, 2] \<and>
        tensor_at r [0, 0, 0, 0] = finfo_float16_min \<and> tensor_at r [0, 0, 0, 1] = Finite 0)"
proof -
  let ?m2 = "\<lparr>shape = [1, 2], data = [1, 0 :: int]\<rparr>"
  let ?m3 = "\<lparr>shape = [1, 1, 2], data = [0, 1 :: int]\<rparr>"
  have wf2: "wf_tensor ?m2" and wf3: "wf_tensor ?m3" by (simp_all add: wf_tensor_def)
  have a: "tensor_at ?m2 [0, 0] = 1" "tensor_at ?m2 [0, 1] = 0"
          "tensor_at ?m3 [0, 0, 0] = 0" "tensor_at ?m3 [0, 0, 1] = 1"
    by (simp_all add: tensor_at_def)
  from get_extended_attention_mask_shape_values [OF wf2, of 1 2 "[1, 2]" 0] a
  have p2: "\<exists>r. get_extended_attention_mask ?m2 [1, 2] = Inr r \<and>
        shape r = [1, 1, 1, 2] \<and>
        tensor_at r [0, 0, 0, 0] = Finite 0 \<and> tensor_at r [0, 0, 0, 1] = finfo_float16_min"
    by fastforce
  from get_extended_attention_mask_shape_values [OF wf3, of 1 1 "[1, 2]" 2] a
  have p3: "\<exists>r. get_extended_attention_mask ?m3 [1, 2] = Inr r \<and>
        shape r = [1, 1, 1, 2] \<and>
        tensor_at r [0, 0, 0, 0] = finfo_float16_min \<and> tensor_at r [0, 0, 0, 1] = Finite 0"
    by fastforce
  from p2 p3 show ?thesis by blast
qed

text \<open>
  C4: a mask of rank 1, or of rank 4 or more, makes \<open>get_extended_attention_mask\<close> raise
  \<open>ValueError\<close>; no value is returned.
\<close>

theorem get_extended_attention_mask_wrong_rank:
  "tensor_dim m = 1 \<or> 4 \<le> tensor_dim m \<Longrightarrow> get_extended_attention_mask m ishape = Inl ValueError"
  by (auto simp: get_extended_attention_mask_def bind_result_def)

theorem get_extended_attention_mask_wrong_rank_witness:
  "get_extended_attention_mask \<lparr>shape = [3], data = [1, 0, 1]\<rparr> [3] = Inl ValueError \<and>
   get_extended_attention_mask \<lparr>shape = [1, 1, 1, 2], data = [1, 0]\<rparr> [1, 2] = Inl ValueError"
  using get_extended_attention_mask_wrong_rank [of "\<lparr>shape = [3], data = [1, 0, 1]\<rparr>" "[3]"]
    get_extended_attention_mask_wrong_rank [of "\<lparr>shape = [1, 1, 1, 2], data = [1, 0]\<rparr>" "[1, 2]"]
  by (simp add: tensor_dim_def)

section \<open>Properties of construction and of the sampling hook\<close>

text \<open>
  C6: when a linear method is given and it is not the unquantized one, construction
  raises \<open>NotImplementedError\<close>, whatever the external constructor of the sub-modules
  would do and whatever the adapter configuration is: the constructor is not reached.
\<close>

theorem init_quantization_raises:
  "lm = Some l \<Longrightarrow> \<not> isinstance_UnquantizedLinearMethod l \<Longrightarrow>
   \<exists>msg. init hf cfg lm lora = Inl (NotImplementedError msg)"
  by (simp add: init_def)

theorem init_quantization_raises_witness:
  "\<exists>msg. init (\<lambda>c. Inl RuntimeError :: error + unit hf_model) \<lparr>output_attentions = False, output_hidden_states = False, use_return_dict = True,
               is_decoder = False, use_cache = False, name_or_path = ''BAAI/bge-m3'',
               num_hidden_layers = 1\<rparr>
            (Some (QuantizedLinearMethod ''awq'')) (None :: unit option)
          = Inl (NotImplementedError msg)"
  using init_quantization_raises [of "Some (QuantizedLinearMethod ''awq'')" "QuantizedLinearMethod ''awq''"]
  by simp

text \<open>
  C7: a LoRA configuration other than \<open>None\<close> makes construction raise
  \<open>NotImplementedError\<close>, whatever the configuration holds.
\<close>

theorem init_lora_raises:
  "lora \<noteq> None \<Longrightarrow> \<exists>msg. init hf cfg lm lora = Inl (NotImplementedError msg)"
  by (simp add: init_def)

theorem init_lora_raises_witness:
  "\<exists>msg. init (\<lambda>c. Inl RuntimeError :: error + unit hf_model) \<lparr>output_attentions = False, output_hidden_states = False, use_return_dict = True,
               is_decoder = False, use_cache = False, name_or_path = ''BAAI/bge-m3'',
               num_hidden_layers = 1\<rparr>
            (Some (UnquantizedLinearMethod :: string linear_method_base)) (Some ())
          = Inl (NotImplementedError msg)"
  using init_lora_raises [of "Some ()"] by simp

text \<open>
  C9: \<open>sample\<close> returns the hidden states it is given, for every sampling metadata.
\<close>

theorem sample_identity: "sample h md = h"
  by (simp add: sample_def)

theorem sample_identity_witness: "sample [1 :: real, 2] () = [1, 2]"
  using sample_identity [of "[1 :: real, 2]" "()"] by simp

section \<open>Properties of weight loading\<close>

text \<open>
  Loading a prefix without error and then the rest is loading the whole source; a name
  that the source does not mention keeps its parameter; pairs whose names are parameters
  of matching shape all load; and after a successful load every name of the source
  holds the data of the last tensor yielded for it.
\<close>

lemma load_weights_prefix_ok:
  assumes "load_weights P pre = (Inr (), P')"
  shows "load_weights P (pre @ rest) = load_weights P' rest"
  using assms
proof (induction pre arbitrary: P)
  case Nil
  then show ?case by simp
next
  case (Cons a pre)
  obtain name w where a: "a = (name, w)" by (cases a)
  from Cons.prems a show ?case
    by (auto split: option.splits sum.splits intro: Cons.IH)
qed

lemma load_weights_untouched:
  assumes "load_weights P src = (r, P')" and "n \<notin> fst ` set src"
  shows "P' n = P n"
  using assms
proof (induction src arbitrary: P)
  case Nil
  then show ?case by simp
next
  case (Cons a src)
  obtain name w where a: "a = (name, w)" by (cases a)
  show ?case
  proof (cases "P name")
    case None
    with Cons.prems a show ?thesis by simp
  next
    case (Some p)
    show ?thesis
    proof (cases "default_weight_loader p w")
      case (Inl e)
      with Cons.prems a Some show ?thesis by simp
    next
      case (Inr p')
      with Cons.prems a Some have "load_weights (P(name \<mapsto> p')) src = (r, P')" by simp
      moreover have nn: "n \<notin> fst ` set src" "n \<noteq> name" using Cons.prems a by auto
      ultimately have "P' n = (P(name \<mapsto> p')) n" using Cons.IH by blast
      then show ?thesis using nn by simp
    qed
  qed
qed

lemma load_weights_success:
  assumes "\<forall>(n, t) \<in> set pre. \<exists>p. P n = Some p \<and> shape p = shape t"
  shows "\<exists>P'. load_weights P pre = (Inr (), P')"
  using assms
proof (induction pre arbitrary: P)
  case Nil
  then show ?case by simp
next
  case (Cons a pre)
  obtain name w where a: "a = (name, w)" by (cases a)
  from Cons.prems a obtain p where p: "P name = Some p" "shape p = shape w" by auto
  let ?P1 = "P(name \<mapsto> p\<lparr>data := data w\<rparr>)"
  have "\<exists>q. ?P1 n = Some q \<and> shape q = shape t" if "(n, t) \<in> set pre" for n t
  proof -
    from Cons.prems that obtain q where "P n = Some q" "shape q = shape t" by fastforce
    then show ?thesis using p by (cases "n = name") simp_all
  qed
  then have "\<forall>(n, t) \<in> set pre. \<exists>q. ?P1 n = Some q \<and> shape q = shape t" by blast
  from Cons.IH [OF this] obtain P' where "load_weights ?P1 pre = (Inr (), P')" by blast
  then show ?case using a p by (simp add: default_weight_loader_def)
qed

lemma load_weights_copied:
  assumes "load_weights P pre = (Inr (), P')" and "map_of (rev pre) n = Some t"
  shows "\<exists>p. P n = Some p \<and> P' n = Some (p\<lparr>data := data t\<rparr>)"
  using assms
proof (induction pre arbitrary: P)
  case Nil
  then show ?case by simp
next
  case (Cons a pre)
  obtain name w where a: "a = (name, w)" by (cases a)
  from Cons.prems(1) a obtain p where p: "P name = Some p" "shape p = shape w"
    and rest: "load_weights (P(name \<mapsto> p\<lparr>data := data w\<rparr>)) pre = (Inr (), P')"
    by (auto simp: default_weight_loader_def split: option.splits if_splits)
  show ?case
  proof (cases "map_of (rev pre) n")
    case (Some t')
    with Cons.prems(2) a have "t' = t" by (simp add: map_add_def)
    with Some Cons.IH [OF rest] obtain q where
      q: "(P(name \<mapsto> p\<lparr>data := data w\<rparr>)) n = Some q" "P' n = Some (q\<lparr>data := data t\<rparr>)"
      by blast
    then show ?thesis using p by (cases "n = name") auto
  next
    case None
    with Cons.prems(2) a have eq: "n = name" "t = w"
      by (auto simp: map_add_def split: if_splits)
    from None have "n \<notin> fst ` set pre"
      by (simp add: map_of_eq_None_iff)
    from load_weights_untouched [OF rest this] show ?thesis using p eq by simp
  qed
qed

text \<open>
  C2, as stated, fails: when an earlier pair names a parameter of another shape, the
  loader raises its shape error first, and the absent name is never looked up.
\<close>

theorem load_weights_shape_error_first:
  "[''w'' \<mapsto> \<lparr>shape = [1], data = [0 :: real]\<rparr>] ''missing'' = None \<and>
   load_weights [''w'' \<mapsto> \<lparr>shape = [1], data = [0]\<rparr>]
     [(''w'', \<lparr>shape = [2], data = [1, 2]\<rparr>), (''missing'', \<lparr>shape = [1], data = [3]\<rparr>)]
   = (Inl ShapeError, [''w'' \<mapsto> \<lparr>shape = [1], data = [0]\<rparr>]) \<and>
   fst (load_weights [''w'' \<mapsto> \<lparr>shape = [1], data = [0]\<rparr>]
     [(''w'', \<lparr>shape = [2], data = [1, 2]\<rparr>), (''missing'', \<lparr>shape = [1], data = [3]\<rparr>)])
   \<noteq> Inl (KeyError ''missing'')"
  by (simp add: default_weight_loader_def)

text \<open>
  C2, amended: when the source yields a name that is not a parameter, and every pair
  before it names a parameter of the same shape, \<open>load_weights\<close> raises \<open>KeyError\<close>
  for that name, and the parameters are left as the pairs before it wrote them: each name
  yielded before holds the data of the last tensor yielded for it, and every other
  parameter is unchanged.
\<close>

theorem load_weights_missing_name:
  assumes absent: "P name = None"
    and earlier: "\<forall>(n, t) \<in> set pre. \<exists>p. P n = Some p \<and> shape p = shape t"
  shows "\<exists>P'. load_weights P (pre @ (name, w) # rest) = (Inl (KeyError name), P') \<and>
              load_weights P pre = (Inr (), P') \<and>
              (\<forall>n t. map_of (rev pre) n = Some t \<longrightarrow>
                     (\<exists>p. P n = Some p \<and> P' n = Some (p\<lparr>data := data t\<rparr>))) \<and>
              (\<forall>n. n \<notin> fst ` set pre \<longrightarrow> P' n = P n)"
proof -
  from load_weights_success [OF earlier] obtain P' where ok: "load_weights P pre = (Inr (), P')"
    by blast
  have "name \<notin> fst ` set pre" using absent earlier by force
  from load_weights_untouched [OF ok this] absent have "P' name = None" by simp
  then have "load_weights P (pre @ (name, w) # rest) = (Inl (KeyError name), P')"
    using load_weights_prefix_ok [OF ok, of "(name, w) # rest"] by simp
  moreover have "\<forall>n t. map_of (rev pre) n = Some t \<longrightarrow>
                     (\<exists>p. P n = Some p \<and> P' n = Some (p\<lparr>data := data t\<rparr>))"
    using load_weights_copied [OF ok] by blast
  moreover have "\<forall>n. n \<notin> fst ` set pre \<longrightarrow> P' n = P n"
    using load_weights_untouched [OF ok] by blast
  ultimately show ?thesis using ok by blast
qed

theorem load_weights_missing_name_witness:
  "load_weights [''w'' \<mapsto> \<lparr>shape = [2], data = [0, 0]\<rparr>]
     [(''w'', \<lparr>shape = [2], data = [1, 2]\<rparr>), (''missing'', \<lparr>shape = [1], data = [3]\<rparr>),
      (''w'', \<lparr>shape = [2], data = [4, 5]\<rparr>)]
   = (Inl (KeyError ''missing''), [''w'' \<mapsto> \<lparr>shape = [2], data = [1, 2]\<rparr>])"
proof -
  let ?P = "[''w'' \<mapsto> \<lparr>shape = [2], data = [0, 0 :: real]\<rparr>]"
  let ?pre = "[(''w'', \<lparr>shape = [2], data = [1, 2 :: real]\<rparr>)]"
  have a: "?P ''missing'' = None" by simp
  have b: "\<forall>(n, t) \<in> set ?pre. \<exists>p. ?P n = Some p \<and> shape p = shape t" by simp
  from load_weights_missing_name [OF a b, of "\<lparr>shape = [1], data = [3]\<rparr>"
      "[(''w'', \<lparr>shape = [2], data = [4, 5]\<rparr>)]"]
  show ?thesis by (auto simp: default_weight_loader_def)
qed

section \<open>Properties of forward inference\<close>

text \<open>
  What a successful iteration went through: the slices, the unpacked shape, the call of
  the encoder, and the value appended for either kind of model name.
\<close>

lemma bind_result_Inr_iff:
  "bind_result r f = Inr y \<longleftrightarrow> (\<exists>x. r = Inr x \<and> f x = Inr y)"
  by (cases r) (simp_all add: bind_result_def)

lemma slice_rows_shape:
  assumes "shape t = [n, L]"
  shows "slice_rows t s e =
           Inr \<lparr>shape = [min e n - min s n, L],
                data = take ((min e n - min s n) * L) (drop (min s n * L) (data t))\<rparr>"
  using assms by (simp add: slice_rows_def Let_def max_def min_def)

lemma encode_chunk_inversion:
  assumes "encode_chunk self ids am b l = Inr out"
  shows "\<exists>emb ext hm eo.
           encoder self emb ext hm (if is_decoder (config self) then use_cache (config self) else False)
             (output_attentions (config self)) (output_hidden_states (config self))
             (use_return_dict (config self)) = Inr eo \<and>
           (if name_or_path (config self) = ''BAAI/bge-m3'' then
              \<exists>d. dense_embedding (encoder_outputs_first eo) (resolve_attention_mask am b l) = Inr d \<and>
                  out = TensorOutput (normalize d)
            else \<exists>m. out = ModelOutput m \<and> last_hidden_state m = encoder_outputs_first eo)"
proof -
  from assms obtain ext hm emb eo po mo where
    enc: "encoder self emb ext hm (if is_decoder (config self) then use_cache (config self) else False)
             (output_attentions (config self)) (output_hidden_states (config self))
             (use_return_dict (config self)) = Inr eo"
    and mo: "chunk_model_output eo (encoder_outputs_first eo) po = Inr mo"
    and fin: "(if name_or_path (config self) = ''BAAI/bge-m3'' then
        bind_result (dense_embedding (last_hidden_state mo) (resolve_attention_mask am b (l + 0)))
          (\<lambda>output. Inr (TensorOutput (normalize output)))
      else Inr (ModelOutput mo)) = Inr out"
    unfolding encode_chunk_def Let_def bind_result_Inr_iff by auto
  from mo have lhs: "last_hidden_state mo = encoder_outputs_first eo"
    by (auto simp: chunk_model_output_def split: encoder_outputs.splits)
  show ?thesis
  proof (cases "name_or_path (config self) = ''BAAI/bge-m3''")
    case True
    with fin lhs obtain d where d:
      "dense_embedding (encoder_outputs_first eo) (resolve_attention_mask am b l) = Inr d"
      "out = TensorOutput (normalize d)"
      by (auto simp: bind_result_Inr_iff)
    show ?thesis
      apply (rule exI [of _ emb], rule exI [of _ ext], rule exI [of _ hm], rule exI [of _ eo])
      using enc True d by simp
  next
    case False
    with fin have "out = ModelOutput mo" by simp
    then show ?thesis
      apply (rule_tac exI [of _ emb], rule_tac exI [of _ ext], rule_tac exI [of _ hm],
          rule_tac exI [of _ eo])
      using enc False lhs by simp
  qed
qed

lemma case_pair_shape_Inr:
  assumes "(case xs of [] \<Rightarrow> Inl e | [a] \<Rightarrow> Inl e | [a, b] \<Rightarrow> f a b | a # b # c # ds \<Rightarrow> Inl e) = Inr y"
  shows "\<exists>a b. xs = [a, b] \<and> f a b = Inr y"
  using assms by (auto split: list.splits)

lemma forward_chunk_inversion:
  assumes "forward_chunk self input_ids meta s bs = Inr (bs', out)"
  shows "\<exists>ids am L.
           slice_rows input_ids s (s + bs) = Inr ids \<and>
           slot_attention_mask meta s bs = Inr am \<and>
           shape ids = [bs', L] \<and>
           encode_chunk self ids am bs' L = Inr out"
proof -
  from assms obtain ids am where
    ids: "slice_rows input_ids s (s + bs) = Inr ids"
    and am: "slot_attention_mask meta s bs = Inr am"
    and c: "(case shape ids of
         [batch_size, seq_length] \<Rightarrow>
           bind_result (encode_chunk self ids am batch_size seq_length)
             (\<lambda>output. Inr (batch_size, output))
       | _ \<Rightarrow> Inl ValueError) = Inr (bs', out)"
    unfolding forward_chunk_def bind_result_Inr_iff by blast
  from case_pair_shape_Inr [OF c] obtain a b where
    "shape ids = [a, b]" "bind_result (encode_chunk self ids am a b) (\<lambda>output. Inr (a, output)) = Inr (bs', out)"
    by blast
  then have "shape ids = [bs', b]" "encode_chunk self ids am bs' b = Inr out"
    by (auto simp: bind_result_Inr_iff)
  with ids am show ?thesis by blast
qed

lemma encode_chunk_mask_inversion:
  assumes "encode_chunk self ids (Some m) b l = Inr out"
  shows "\<exists>tti ext emb eo.
           get_extended_attention_mask m [b, l] = Inr ext \<and>
           embed (embeddings self) ids tti 0 = Inr emb \<and>
           encoder self emb ext (replicate (nat (num_hidden_layers (config self))) None)
             (if is_decoder (config self) then use_cache (config self) else False)
             (output_attentions (config self)) (output_hidden_states (config self))
             (use_return_dict (config self)) = Inr eo \<and>
           (if name_or_path (config self) = ''BAAI/bge-m3'' then
              \<exists>d. dense_embedding (encoder_outputs_first eo) m = Inr d \<and>
                  out = TensorOutput (normalize d)
            else \<exists>mo. out = ModelOutput mo \<and> last_hidden_state mo = encoder_outputs_first eo)"
proof -
  from assms obtain tti ext hm emb eo po mo where
    ext: "get_extended_attention_mask (resolve_attention_mask (Some m) b (l + 0)) [b, l] = Inr ext"
    and hm: "get_head_mask None (num_hidden_layers (config self)) False = Inr hm"
    and emb: "embed (embeddings self) ids tti 0 = Inr emb"
    and enc: "encoder self emb ext hm (if is_decoder (config self) then use_cache (config self) else False)
             (output_attentions (config self)) (output_hidden_states (config self))
             (use_return_dict (config self)) = Inr eo"
    and mo: "chunk_model_output eo (encoder_outputs_first eo) po = Inr mo"
    and fin: "(if name_or_path (config self) = ''BAAI/bge-m3'' then
        bind_result (dense_embedding (last_hidden_state mo) (resolve_attention_mask (Some m) b (l + 0)))
          (\<lambda>output. Inr (TensorOutput (normalize output)))
      else Inr (ModelOutput mo)) = Inr out"
    unfolding encode_chunk_def Let_def bind_result_Inr_iff by auto
  have rs: "resolve_attention_mask (Some m) b (l + 0) = m"
    by (simp add: resolve_attention_mask_def)
  have hm': "hm = replicate (nat (num_hidden_layers (config self))) None"
    using hm by (simp add: get_head_mask_def)
  from mo have lhs: "last_hidden_state mo = encoder_outputs_first eo"
    by (auto simp: chunk_model_output_def split: encoder_outputs.splits)
  have fin': "if name_or_path (config self) = ''BAAI/bge-m3'' then
              \<exists>d. dense_embedding (encoder_outputs_first eo) m = Inr d \<and>
                  out = TensorOutput (normalize d)
            else \<exists>mo. out = ModelOutput mo \<and> last_hidden_state mo = encoder_outputs_first eo"
  proof (cases "name_or_path (config self) = ''BAAI/bge-m3''")
    case True
    with fin lhs rs show ?thesis by (auto simp: bind_result_Inr_iff)
  next
    case False
    with fin lhs show ?thesis by auto
  qed
  show ?thesis
    apply (rule exI [of _ tti], rule exI [of _ ext], rule exI [of _ emb], rule exI [of _ eo])
    using ext [unfolded rs] emb enc [unfolded hm'] fin' by blast
qed

text \<open>
  The start indices are the multiples of 12 below \<open>n\<close>. The loop over a list of start
  indices is the loop over a prefix followed by the loop over the rest, and every
  iteration leaves in \<open>batch_size\<close> the number of rows of its slice.
\<close>

lemma ceil12_dvd: "12 dvd n \<Longrightarrow> (n + 11) div 12 = n div (12::nat)"
  by (elim dvdE) simp

lemma ceil12_ndvd:
  assumes "\<not> 12 dvd n"
  shows "(n + 11) div 12 = n div (12::nat) + 1"
proof -
  define q r where "q = n div 12" and "r = n mod 12"
  have n: "n = 12 * q + r" by (simp add: q_def r_def)
  have r: "0 < r" using assms by (simp add: r_def dvd_eq_mod_eq_0)
  have r2: "r < 12" by (simp add: r_def)
  have "(n + 11) div 12 = q + 1"
  proof (rule div_nat_eqI)
    show "12 * (q + 1) \<le> n + 11" using r by (simp add: n)
    show "n + 11 < 12 * Suc (q + 1)" using r2 by (simp add: n)
  qed
  then show ?thesis by (simp add: q_def)
qed

lemma lt_of_ceil12: "k < (n + 11) div 12 \<Longrightarrow> 12 * k < (n::nat)"
  by arith

lemma length_py_range: "length (py_range n 12) = (n + 11) div 12"
  by (simp add: py_range_def)

lemma nth_py_range: "k < (n + 11) div 12 \<Longrightarrow> py_range n 12 ! k = 12 * k"
  by (simp add: py_range_def)

lemma forward_loop_append:
  "forward_loop self input_ids meta (xs @ ys) bs tlist =
     bind_result (forward_loop self input_ids meta xs bs tlist)
       (\<lambda>(bs', tlist'). forward_loop self input_ids meta ys bs' tlist')"
proof (induction xs arbitrary: bs tlist)
  case Nil
  show ?case by (simp add: bind_result_def)
next
  case (Cons x xs)
  show ?case
  proof (cases "forward_chunk self input_ids meta x bs")
    case (Inl e)
    then show ?thesis by (simp add: bind_result_def)
  next
    case (Inr r)
    obtain b' out where "r = (b', out)" by (cases r)
    with Inr show ?thesis using Cons.IH [of b' "tlist @ [out]"] by (simp add: bind_result_def)
  qed
qed

lemma forward_chunk_step:
  assumes sh: "shape input_ids = [n, L]"
    and fc: "forward_chunk self input_ids meta s bs = Inr (bs', out)"
  shows "bs' = min (s + bs) n - min s n"
proof -
  from forward_chunk_inversion [OF fc] obtain ids L' where
    "slice_rows input_ids s (s + bs) = Inr ids" "shape ids = [bs', L']" by blast
  then show ?thesis using slice_rows_shape [OF sh, of s "s + bs"] by auto
qed

lemma forward_loop_prefix:
  assumes sh: "shape input_ids = [n, L]"
  shows "k \<le> (n + 11) div 12 \<Longrightarrow>
         forward_loop self input_ids meta (take k (py_range n 12)) 12 [] = Inr (bs, tlist) \<Longrightarrow>
         length tlist = k \<and> bs = (if k = 0 then 12 else min 12 (n - 12 * (k - 1)))"
proof (induction k arbitrary: bs tlist)
  case 0
  then show ?case by simp
next
  case (Suc k)
  have k: "k < (n + 11) div 12" using Suc.prems(1) by simp
  then have lt: "12 * k < n" by arith
  have tk: "take (Suc k) (py_range n 12) = take k (py_range n 12) @ [12 * k]"
    using k by (simp add: take_Suc_conv_app_nth length_py_range nth_py_range)
  from Suc.prems(2) obtain bs0 tlist0 where
    pre: "forward_loop self input_ids meta (take k (py_range n 12)) 12 [] = Inr (bs0, tlist0)"
    and st: "forward_loop self input_ids meta [12 * k] bs0 tlist0 = Inr (bs, tlist)"
    unfolding tk forward_loop_append bind_result_Inr_iff by auto
  from Suc.IH [OF _ pre] k have ih: "length tlist0 = k"
    "bs0 = (if k = 0 then 12 else min 12 (n - 12 * (k - 1)))" by simp_all
  have bs0: "bs0 = 12" using ih(2) lt by (cases k) auto
  from st obtain out where fc: "forward_chunk self input_ids meta (12 * k) bs0 = Inr (bs, out)"
    and tlist: "tlist = tlist0 @ [out]"
    by (auto simp: bind_result_Inr_iff)
  from forward_chunk_step [OF sh fc] have "bs = min (12 * k + 12) n - min (12 * k) n"
    using bs0 by simp
  then have "bs = min 12 (n - 12 * k)" using lt by auto
  then show ?case using tlist ih(1) by simp
qed

lemma forward_loop_outputs:
  assumes "forward_loop self input_ids meta starts bs tl0 = Inr (bs', tl')"
  shows "\<exists>more. tl' = tl0 @ more \<and> length more = length starts \<and>
           (\<forall>out \<in> set more. \<exists>s b b'. forward_chunk self input_ids meta s b = Inr (b', out))"
  using assms
proof (induction starts arbitrary: bs tl0)
  case Nil
  then show ?case by simp
next
  case (Cons s starts)
  from Cons.prems obtain b1 out where
    fc: "forward_chunk self input_ids meta s bs = Inr (b1, out)"
    and rest: "forward_loop self input_ids meta starts b1 (tl0 @ [out]) = Inr (bs', tl')"
    by (auto simp: bind_result_Inr_iff)
  from Cons.IH [OF rest] obtain more where
    m: "tl' = (tl0 @ [out]) @ more" "length more = length starts"
    "\<forall>o' \<in> set more. \<exists>s b b'. forward_chunk self input_ids meta s b = Inr (b', o')"
    by blast
  show ?case
  proof (intro exI [of _ "out # more"] conjI)
    show "tl' = tl0 @ out # more" using m(1) by simp
    show "length (out # more) = length (s # starts)" using m(2) by simp
    show "\<forall>out\<in>set (out # more). \<exists>s b b'. forward_chunk self input_ids meta s b = Inr (b', out)"
      using m(3) fc by auto
  qed
qed

text \<open>Runs of the concrete model, evaluated.\<close>

lemmas demo_defs = demo_model_def demo_config_def demo_embeddings_def demo_encoder_def

lemmas eval_defs = forward_def forward_chunk_def encode_chunk_def bind_result_def
  slice_rows_def slot_attention_mask_def ne_int_def resolve_attention_mask_def
  chunk_token_type_ids_def slice_cols_def expand2_def torch_full_def
  get_extended_attention_mask_def tensor_dim_def to_float16_def get_head_mask_def
  encoder_outputs_first_def chunk_pooled_output_def chunk_model_output_def
  dense_embedding_def py_range_def torch_cat_def Let_def

lemma demo_other_name_chunk:
  "forward_chunk (demo_model ''xlm-roberta-base'' 1) \<lparr>shape = [1, 1], data = [5]\<rparr>
     \<lparr>slot_mapping = \<lparr>shape = [1, 1], data = [0]\<rparr>\<rparr> 0 12 =
   Inr (1, ModelOutput \<lparr>last_hidden_state = \<lparr>shape = [1, 1, 1], data = [5]\<rparr>,
      pooler_output = None, past_key_values = (), hidden_states = (), attentions = (),
      cross_attentions = ()\<rparr>)"
  by (simp add: eval_defs demo_defs upt_rec)

lemma l2_norm_single: "l2_norm [x] = \<bar>x\<bar>"
  by (simp add: l2_norm_def)

lemma demo_tiny_chunk:
  "forward_chunk (demo_model ''BAAI/bge-m3'' (1 / 10 ^ 13)) \<lparr>shape = [1, 1], data = [1]\<rparr>
     \<lparr>slot_mapping = \<lparr>shape = [1, 1], data = [0]\<rparr>\<rparr> 0 12 =
   Inr (1, TensorOutput (normalize \<lparr>shape = [1, 1], data = [1 / 10 ^ 13]\<rparr>))"
  by (simp add: eval_defs demo_defs upt_rec)

lemma demo_tiny_normalize:
  "normalize \<lparr>shape = [1, 1], data = [1 / 10 ^ 13]\<rparr> = \<lparr>shape = [1, 1], data = [1 / 10]\<rparr>"
  by (simp add: normalize_def last_axis_def rows_of_def normalize_row_def l2_norm_single
      normalize_eps_def upt_rec)

lemma demo_tiny_forward:
  "forward (demo_model ''BAAI/bge-m3'' (1 / 10 ^ 13)) \<lparr>shape = [1, 1], data = [1]\<rparr> () ()
     \<lparr>slot_mapping = \<lparr>shape = [1, 1], data = [0]\<rparr>\<rparr> = Inr \<lparr>shape = [1, 1], data = [1 / 10]\<rparr>"
  using demo_tiny_chunk demo_tiny_normalize
  by (simp add: forward_def py_range_def upt_rec bind_result_def torch_cat_def)

lemma demo_bge_chunk:
  "forward_chunk (demo_model ''BAAI/bge-m3'' 1) \<lparr>shape = [1, 2], data = [3, 4]\<rparr>
     \<lparr>slot_mapping = \<lparr>shape = [1, 2], data = [0, - 1]\<rparr>\<rparr> 0 12 =
   Inr (1, TensorOutput (normalize \<lparr>shape = [1, 1], data = [3]\<rparr>))"
  by (simp add: eval_defs demo_defs upt_rec)

text \<open>
  C10: in every iteration of \<open>forward\<close> that completes, the attention mask is not
  \<open>None\<close>: it is the tensor of the shape of the slot-mapping slice that holds 1 where
  the slot is not \<open>-1\<close> and 0 where it is. The test against \<open>None\<close> hands on this very
  tensor, and it is this tensor, not a tensor of ones, that is expanded into the mask
  given to the encoder and that is passed to \<open>dense_embedding\<close>.
\<close>

theorem forward_chunk_attention_mask:
  assumes run: "forward_chunk self input_ids meta start_index bs = Inr (bs', out)"
  shows "\<exists>ids slots L tti ext emb eo.
           slice_rows input_ids start_index (start_index + bs) = Inr ids \<and>
           shape ids = [bs', L] \<and>
           slice_rows (slot_mapping meta) start_index (start_index + bs) = Inr slots \<and>
           slot_attention_mask meta start_index bs = Inr (Some (ne_int slots (- 1))) \<and>
           shape (ne_int slots (- 1)) = shape slots \<and>
           data (ne_int slots (- 1)) = map (\<lambda>x. if x \<noteq> - 1 then 1 else 0) (data slots) \<and>
           list_all (\<lambda>v. v = 0 \<or> v = 1) (data (ne_int slots (- 1))) \<and>
           resolve_attention_mask (Some (ne_int slots (- 1))) bs' L = ne_int slots (- 1) \<and>
           encode_chunk self ids (Some (ne_int slots (- 1))) bs' L = Inr out \<and>
           get_extended_attention_mask (ne_int slots (- 1)) [bs', L] = Inr ext \<and>
           embed (embeddings self) ids tti 0 = Inr emb \<and>
           encoder self emb ext (replicate (nat (num_hidden_layers (config self))) None)
             (if is_decoder (config self) then use_cache (config self) else False)
             (output_attentions (config self)) (output_hidden_states (config self))
             (use_return_dict (config self)) = Inr eo \<and>
           (if name_or_path (config self) = ''BAAI/bge-m3'' then
              \<exists>d. dense_embedding (encoder_outputs_first eo) (ne_int slots (- 1)) = Inr d \<and>
                  out = TensorOutput (normalize d)
            else \<exists>mo. out = ModelOutput mo \<and> last_hidden_state mo = encoder_outputs_first eo)"
proof -
  from forward_chunk_inversion [OF run] obtain ids am L where
    ids: "slice_rows input_ids start_index (start_index + bs) = Inr ids"
    and am: "slot_attention_mask meta start_index bs = Inr am"
    and sh: "shape ids = [bs', L]"
    and ec: "encode_chunk self ids am bs' L = Inr out"
    by blast
  from am obtain slots where
    slots: "slice_rows (slot_mapping meta) start_index (start_index + bs) = Inr slots"
    and am': "am = Some (ne_int slots (- 1))"
    by (auto simp: slot_attention_mask_def bind_result_Inr_iff)
  let ?m = "ne_int slots (- 1)"
  have p1: "shape ?m = shape slots"
    and p2: "data ?m = map (\<lambda>x. if x \<noteq> - 1 then 1 else 0) (data slots)"
    by (simp_all add: ne_int_def)
  have p3: "list_all (\<lambda>v. v = 0 \<or> v = 1) (data ?m)"
    by (auto simp: p2 list_all_iff)
  have p4: "resolve_attention_mask (Some ?m) bs' L = ?m"
    by (simp add: resolve_attention_mask_def)
  have ec': "encode_chunk self ids (Some ?m) bs' L = Inr out" using ec am' by simp
  from encode_chunk_mask_inversion [OF ec'] obtain tti ext emb eo where
    q: "get_extended_attention_mask ?m [bs', L] = Inr ext"
    "embed (embeddings self) ids tti 0 = Inr emb"
    "encoder self emb ext (replicate (nat (num_hidden_layers (config self))) None)
             (if is_decoder (config self) then use_cache (config self) else False)
             (output_attentions (config self)) (output_hidden_states (config self))
             (use_return_dict (config self)) = Inr eo"
    "if name_or_path (config self) = ''BAAI/bge-m3'' then
              \<exists>d. dense_embedding (encoder_outputs_first eo) ?m = Inr d \<and>
                  out = TensorOutput (normalize d)
            else \<exists>mo. out = ModelOutput mo \<and> last_hidden_state mo = encoder_outputs_first eo"
    by blast
  show ?thesis
    apply (rule exI [of _ ids], rule exI [of _ slots], rule exI [of _ L], rule exI [of _ tti],
        rule exI [of _ ext], rule exI [of _ emb], rule exI [of _ eo])
    using ids sh slots am [unfolded am'] p1 p2 p3 p4 ec' q by blast
qed

lemma demo_masking_chunk:
  "forward_chunk (demo_masking_model ''xlm-roberta-base'') \<lparr>shape = [1, 2], data = [3, 4]\<rparr>
     \<lparr>slot_mapping = \<lparr>shape = [1, 2], data = [0, - 1]\<rparr>\<rparr> 0 12 =
   Inr (1, ModelOutput \<lparr>last_hidden_state = \<lparr>shape = [1, 2, 1], data = [3, 0]\<rparr>,
      pooler_output = None, past_key_values = (), hidden_states = (), attentions = (),
      cross_attentions = ()\<rparr>)"
  by (simp add: eval_defs demo_masking_model_def demo_masking_encoder_def demo_config_def
      demo_embeddings_def upt_rec half_round_small finfo_float16_min_def half_round_min)

theorem forward_chunk_attention_mask_witness:
  "forward_chunk (demo_masking_model ''xlm-roberta-base'') \<lparr>shape = [1, 2], data = [3, 4]\<rparr>
     \<lparr>slot_mapping = \<lparr>shape = [1, 2], data = [0, - 1]\<rparr>\<rparr> 0 12 =
   Inr (1, ModelOutput \<lparr>last_hidden_state = \<lparr>shape = [1, 2, 1], data = [3, 0]\<rparr>,
      pooler_output = None, past_key_values = (), hidden_states = (), attentions = (),
      cross_attentions = ()\<rparr>) \<and>
   slot_attention_mask \<lparr>slot_mapping = \<lparr>shape = [1, 2], data = [0, - 1]\<rparr>\<rparr> 0 12 =
     Inr (Some \<lparr>shape = [1, 2], data = [1, 0]\<rparr>) \<and>
   (\<exists>ext emb eo.
      get_extended_attention_mask \<lparr>shape = [1, 2], data = [1, 0]\<rparr> [1, 2] = Inr ext \<and>
      encoder (demo_masking_model ''xlm-roberta-base'') emb ext [None, None] False False False True
        = Inr eo)"
proof -
  let ?self = "demo_masking_model ''xlm-roberta-base''"
  let ?meta = "\<lparr>slot_mapping = \<lparr>shape = [1, 2], data = [0, - 1]\<rparr>\<rparr>"
  have sl: "slice_rows (slot_mapping ?meta) 0 (0 + 12) = Inr \<lparr>shape = [1, 2], data = [0, - 1]\<rparr>"
    by (simp add: slice_rows_def)
  have ne: "ne_int \<lparr>shape = [1, 2], data = [0, - 1]\<rparr> (- 1) = \<lparr>shape = [1, 2], data = [1, 0]\<rparr>"
    by (simp add: ne_int_def)
  have cfg: "num_hidden_layers (config ?self) = 2" "is_decoder (config ?self) = False"
    "output_attentions (config ?self) = False" "output_hidden_states (config ?self) = False"
    "use_return_dict (config ?self) = True"
    by (simp_all add: demo_masking_model_def demo_config_def)
  have rep: "replicate 2 None = [None, None :: unit option]"
    by (simp add: numeral_2_eq_2)
  from forward_chunk_attention_mask [OF demo_masking_chunk]
  obtain slots ext emb eo where
    "slice_rows (slot_mapping ?meta) 0 (0 + 12) = Inr slots"
    "slot_attention_mask ?meta 0 12 = Inr (Some (ne_int slots (- 1)))"
    "get_extended_attention_mask (ne_int slots (- 1)) [1, 2] = Inr ext"
    "encoder ?self emb ext (replicate (nat (num_hidden_layers (config ?self))) None)
             (if is_decoder (config ?self) then use_cache (config ?self) else False)
             (output_attentions (config ?self)) (output_hidden_states (config ?self))
             (use_return_dict (config ?self)) = Inr eo"
    by (auto simp: slice_rows_def)
  then show ?thesis
    using demo_masking_chunk sl ne by (auto simp: cfg rep)
qed

text \<open>
  When the loop over \<open>range(0, n, 12)\<close> completes: the number of iterations, the
  final \<open>batch_size\<close>, and the slice of every iteration.
\<close>

lemma forward_loop_chunks_of_12:
  assumes sh: "shape input_ids = [n, L]"
    and run: "forward_loop self input_ids meta (py_range n 12) 12 [] = Inr (bs, tlist)"
  shows "(12 dvd n \<longrightarrow> length tlist = n div 12) \<and>
         (\<not> 12 dvd n \<longrightarrow> length tlist = n div 12 + 1 \<and> bs = n mod 12) \<and>
         (\<forall>k < length tlist. \<exists>bs_k tl_k.
             forward_loop self input_ids meta (take k (py_range n 12)) 12 [] = Inr (bs_k, tl_k) \<and>
             length tl_k = k \<and>
             slice_rows input_ids (py_range n 12 ! k) (py_range n 12 ! k + bs_k) =
               Inr \<lparr>shape = [min 12 (n - 12 * k), L],
                    data = take (min 12 (n - 12 * k) * L) (drop (12 * k * L) (data input_ids))\<rparr>)"
proof -
  let ?m = "(n + 11) div 12"
  have full: "take ?m (py_range n 12) = py_range n 12"
    by (simp add: length_py_range)
  from forward_loop_prefix [OF sh, of ?m self meta bs tlist] run full
  have len: "length tlist = ?m"
    and bs: "bs = (if ?m = 0 then 12 else min 12 (n - 12 * (?m - 1)))"
    by simp_all
  have a: "12 dvd n \<longrightarrow> length tlist = n div 12"
    using len by (simp add: ceil12_dvd)
  have b: "\<not> 12 dvd n \<longrightarrow> length tlist = n div 12 + 1 \<and> bs = n mod 12"
  proof
    assume nd: "\<not> 12 dvd n"
    then have m: "?m = n div 12 + 1" by (rule ceil12_ndvd)
    then have "bs = min 12 (n - 12 * (n div 12))" using bs by simp
    also have "\<dots> = n mod 12" by (simp add: minus_mult_div_eq_mod)
    finally show "length tlist = n div 12 + 1 \<and> bs = n mod 12" using len m by simp
  qed
  have c: "\<exists>bs_k tl_k.
             forward_loop self input_ids meta (take k (py_range n 12)) 12 [] = Inr (bs_k, tl_k) \<and>
             length tl_k = k \<and>
             slice_rows input_ids (py_range n 12 ! k) (py_range n 12 ! k + bs_k) =
               Inr \<lparr>shape = [min 12 (n - 12 * k), L],
                    data = take (min 12 (n - 12 * k) * L) (drop (12 * k * L) (data input_ids))\<rparr>"
    if k: "k < length tlist" for k
  proof -
    have km: "k < ?m" using k len by simp
    then have lt: "12 * k < n" by (rule lt_of_ceil12)
    have "forward_loop self input_ids meta (take k (py_range n 12) @ drop k (py_range n 12)) 12 []
            = Inr (bs, tlist)"
      using run by simp
    then obtain bs_k tl_k where
      pre: "forward_loop self input_ids meta (take k (py_range n 12)) 12 [] = Inr (bs_k, tl_k)"
      unfolding forward_loop_append bind_result_Inr_iff by auto
    from forward_loop_prefix [OF sh _ pre] km have lk: "length tl_k = k"
      and bk: "bs_k = (if k = 0 then 12 else min 12 (n - 12 * (k - 1)))" by simp_all
    have "bs_k = 12" using bk lt by (cases k) auto
    moreover have "min (12 * k + 12) n - min (12 * k) n = min 12 (n - 12 * k)"
      and "min (12 * k) n = 12 * k" using lt by auto
    ultimately have "slice_rows input_ids (py_range n 12 ! k) (py_range n 12 ! k + bs_k) =
               Inr \<lparr>shape = [min 12 (n - 12 * k), L],
                    data = take (min 12 (n - 12 * k) * L) (drop (12 * k * L) (data input_ids))\<rparr>"
      using slice_rows_shape [OF sh, of "12 * k" "12 * k + 12"] nth_py_range [OF km] by simp
    with pre lk show ?thesis by blast
  qed
  from a b c show ?thesis by blast
qed

text \<open>
  A vector whose norm is at least \<open>eps\<close> is normalized to norm 1.
\<close>

lemma sum_sq_div:
  "sum_list (map (\<lambda>x. (x / c)\<^sup>2) v) = sum_list (map (\<lambda>x. x\<^sup>2) v) / c\<^sup>2" for c :: real
  by (induction v) (simp_all add: power_divide add_divide_distrib)

lemma sum_sq_nonneg: "0 \<le> sum_list (map (\<lambda>x. x\<^sup>2) v)" for v :: "real list"
  by (induction v) simp_all

lemma l2_norm_normalize_row:
  assumes "normalize_eps \<le> l2_norm v"
  shows "l2_norm (normalize_row v) = 1"
proof -
  have eps: "0 < normalize_eps" by (simp add: normalize_eps_def)
  then have pos: "0 < l2_norm v" using assms by linarith
  have mx: "max (l2_norm v) normalize_eps = l2_norm v" using assms by simp
  have sq: "(l2_norm v)\<^sup>2 = sum_list (map (\<lambda>x. x\<^sup>2) v)"
    by (simp add: l2_norm_def sum_sq_nonneg)
  have "sum_list (map (\<lambda>x. x\<^sup>2) (normalize_row v)) =
          sum_list (map (\<lambda>x. x\<^sup>2) v) / (l2_norm v)\<^sup>2"
    by (simp add: normalize_row_def mx comp_def sum_sq_div)
  also have "\<dots> = (l2_norm v)\<^sup>2 / (l2_norm v)\<^sup>2" by (simp only: sq)
  also have "\<dots> = 1" using pos by simp
  finally show ?thesis by (simp add: l2_norm_def)
qed

text \<open>
  C8, as stated, fails: a first-token hidden state that is not zero but shorter than
  \<open>eps = 1e-12\<close> is divided by \<open>eps\<close>, not by its norm. Here the hidden state is
  \<open>1e-13\<close> and the output \<open>0.1\<close>.
\<close>

theorem normalize_tiny_hidden_state:
  "forward_chunk (demo_model ''BAAI/bge-m3'' (1 / 10 ^ 13)) \<lparr>shape = [1, 1], data = [1]\<rparr>
     \<lparr>slot_mapping = \<lparr>shape = [1, 1], data = [0]\<rparr>\<rparr> 0 12 =
     Inr (1, TensorOutput (normalize \<lparr>shape = [1, 1], data = [1 / 10 ^ 13]\<rparr>)) \<and>
   [1 / 10 ^ 13] \<noteq> [0 :: real] \<and>
   forward (demo_model ''BAAI/bge-m3'' (1 / 10 ^ 13)) \<lparr>shape = [1, 1], data = [1]\<rparr> () ()
     \<lparr>slot_mapping = \<lparr>shape = [1, 1], data = [0]\<rparr>\<rparr> = Inr \<lparr>shape = [1, 1], data = [1 / 10]\<rparr> \<and>
   l2_norm [1 / 10] = 1 / 10 \<and> l2_norm [1 / 10] \<noteq> 1"
  using demo_tiny_chunk demo_tiny_forward by (simp add: l2_norm_single)

text \<open>
  C8, amended: when the name of the configuration is \<open>BAAI/bge-m3\<close>, every value that
  \<open>forward\<close> appends to \<open>tensor_list\<close> is the normalization of
  \<open>dense_embedding\<close> applied to the last hidden state that the encoder returned for the
  chunk: its vectors along the last axis are those of the first-token tensor, each
  divided by the larger of its norm and \<open>eps\<close>, and every vector whose norm is at least
  \<open>eps\<close> comes out with norm 1 (in real arithmetic).
\<close>

theorem forward_bge_m3_outputs_normalized:
  assumes name: "name_or_path (config self) = ''BAAI/bge-m3''"
    and run: "forward_loop self input_ids meta (py_range n 12) 12 [] = Inr (bs, tlist)"
    and out: "out \<in> set tlist"
  shows "\<exists>emb ext hm eo am d.
           encoder self emb ext hm (if is_decoder (config self) then use_cache (config self) else False)
             (output_attentions (config self)) (output_hidden_states (config self))
             (use_return_dict (config self)) = Inr eo \<and>
           dense_embedding (encoder_outputs_first eo) am = Inr d \<and>
           out = TensorOutput (normalize d) \<and>
           shape (normalize d) = shape d \<and>
           data (normalize d) = concat (map normalize_row (rows_of (last_axis d) (data d))) \<and>
           (\<forall>v \<in> set (rows_of (last_axis d) (data d)).
              normalize_eps \<le> l2_norm v \<longrightarrow> l2_norm (normalize_row v) = 1)"
proof -
  from forward_loop_outputs [OF run] out obtain s b b' where
    fc: "forward_chunk self input_ids meta s b = Inr (b', out)" by auto
  from forward_chunk_inversion [OF fc] obtain ids am L where
    ec: "encode_chunk self ids am b' L = Inr out" by blast
  from encode_chunk_inversion [OF ec] name obtain emb ext hm eo d where
    enc: "encoder self emb ext hm (if is_decoder (config self) then use_cache (config self) else False)
             (output_attentions (config self)) (output_hidden_states (config self))
             (use_return_dict (config self)) = Inr eo"
    and d: "dense_embedding (encoder_outputs_first eo) (resolve_attention_mask am b' L) = Inr d"
    and o: "out = TensorOutput (normalize d)"
    by auto
  have "shape (normalize d) = shape d"
    and "data (normalize d) = concat (map normalize_row (rows_of (last_axis d) (data d)))"
    by (simp_all add: normalize_def)
  moreover have "\<forall>v \<in> set (rows_of (last_axis d) (data d)).
              normalize_eps \<le> l2_norm v \<longrightarrow> l2_norm (normalize_row v) = 1"
    using l2_norm_normalize_row by blast
  ultimately show ?thesis using enc d o by blast
qed

theorem forward_bge_m3_outputs_normalized_witness:
  "\<exists>d. TensorOutput (normalize \<lparr>shape = [1, 1], data = [3]\<rparr>) =
          (TensorOutput (normalize d) :: unit chunk_output) \<and>
       data (normalize d) = concat (map normalize_row (rows_of (last_axis d) (data d))) \<and>
       l2_norm (normalize_row [3]) = 1"
proof -
  let ?self = "demo_model ''BAAI/bge-m3'' 1 :: (unit, unit) xlm_roberta_model"
  let ?ids = "\<lparr>shape = [1, 2], data = [3, 4 :: int]\<rparr>"
  let ?meta = "\<lparr>slot_mapping = \<lparr>shape = [1, 2], data = [0, - 1]\<rparr>\<rparr>"
  let ?out = "TensorOutput (normalize \<lparr>shape = [1, 1], data = [3]\<rparr>) :: unit chunk_output"
  have a: "name_or_path (config ?self) = ''BAAI/bge-m3''" by (simp add: demo_defs)
  have b: "forward_loop ?self ?ids ?meta (py_range 1 12) 12 [] = Inr (1, [?out])"
    using demo_bge_chunk by (simp add: py_range_def upt_rec bind_result_def)
  have c: "?out \<in> set [?out]" by simp
  from forward_bge_m3_outputs_normalized [OF a b c] obtain d where
    d: "?out = TensorOutput (normalize d)"
    "data (normalize d) = concat (map normalize_row (rows_of (last_axis d) (data d)))"
    by blast
  have "normalize_eps \<le> l2_norm [3]" by (simp add: l2_norm_single normalize_eps_def)
  then have "l2_norm (normalize_row [3]) = 1" by (rule l2_norm_normalize_row)
  with d show ?thesis by blast
qed

text \<open>
  The branch for \<open>BAAI/bge-m3\<close> does return a tensor with \<open>n\<close> rows. The
  assumptions say what the external sub-modules are expected to do: the buffered token
  type ids, if any, have shape \<open>(1, P)\<close> with \<open>P\<close> at least the sequence length; the
  embeddings followed by the encoder return a model output whose last hidden state has
  the shape of the token ids with a feature axis \<open>H\<close> appended; the pooler, if any,
  returns.
\<close>

lemma chunk_token_type_ids_ok:
  assumes "case token_type_ids emb of None \<Rightarrow> True | Some buf \<Rightarrow> \<exists>P. shape buf = [1, P] \<and> L \<le> P"
  shows "\<exists>t. chunk_token_type_ids emb [b, L] b L = Inr t"
proof (cases "token_type_ids emb")
  case None
  then show ?thesis by (simp add: chunk_token_type_ids_def)
next
  case (Some buf)
  with assms obtain P where "shape buf = [1, P]" "L \<le> P" by auto
  with Some show ?thesis
    by (simp add: chunk_token_type_ids_def slice_cols_def expand2_def bind_result_def Let_def min_def)
qed

lemma forward_chunk_bge_m3_ok:
  assumes name: "name_or_path (config self) = ''BAAI/bge-m3''"
    and sh: "shape input_ids = [n, L]" and L: "0 < L"
    and slot: "shape (slot_mapping meta) = [n, L]"
    and tti: "case token_type_ids (embeddings self) of None \<Rightarrow> True
              | Some buf \<Rightarrow> \<exists>P. shape buf = [1, P] \<and> L \<le> P"
    and enc: "\<forall>ids tti ext hm. \<exists>e r.
                embed (embeddings self) ids tti 0 = Inr e \<and>
                encoder self e ext hm
                  (if is_decoder (config self) then use_cache (config self) else False)
                  (output_attentions (config self)) (output_hidden_states (config self))
                  (use_return_dict (config self)) = Inr (EncoderModelOutput r) \<and>
                shape (enc_last_hidden_state r) = shape ids @ [H]"
    and pool: "case pooler self of None \<Rightarrow> True | Some p \<Rightarrow> \<forall>h. \<exists>y. p h = Inr y"
  shows "\<exists>t. forward_chunk self input_ids meta s bs =
               Inr (min (s + bs) n - min s n, TensorOutput t) \<and>
             shape t = [min (s + bs) n - min s n, H]"
proof -
  define b where "b = min (s + bs) n - min s n"
  let ?ids = "\<lparr>shape = [b, L], data = take (b * L) (drop (min s n * L) (data input_ids))\<rparr>"
  let ?slots = "\<lparr>shape = [b, L], data = take (b * L) (drop (min s n * L) (data (slot_mapping meta)))\<rparr>"
  let ?am = "ne_int ?slots (- 1)"
  have ids: "slice_rows input_ids s (s + bs) = Inr ?ids"
    unfolding b_def by (rule slice_rows_shape [OF sh])
  have "slice_rows (slot_mapping meta) s (s + bs) = Inr ?slots"
    unfolding b_def by (rule slice_rows_shape [OF slot])
  then have am: "slot_attention_mask meta s bs = Inr (Some ?am)"
    by (simp add: slot_attention_mask_def bind_result_def)
  obtain t1 where t1: "chunk_token_type_ids (embeddings self) [b, L] b L = Inr t1"
    using chunk_token_type_ids_ok [OF tti] by blast
  have "tensor_dim (resolve_attention_mask (Some ?am) b (L + 0)) = 2"
    by (simp add: resolve_attention_mask_def ne_int_def tensor_dim_def)
  then have "\<exists>ext. get_extended_attention_mask (resolve_attention_mask (Some ?am) b (L + 0)) [b, L] = Inr ext"
    by (simp add: get_extended_attention_mask_def bind_result_def Let_def)
  then obtain ext where ext: "get_extended_attention_mask (resolve_attention_mask (Some ?am) b (L + 0)) [b, L] = Inr ext"
    by blast
  have hm: "get_head_mask None (num_hidden_layers (config self)) False =
              Inr (replicate (nat (num_hidden_layers (config self))) None)"
    by (simp add: get_head_mask_def)
  from enc [rule_format, of ?ids t1 ext "replicate (nat (num_hidden_layers (config self))) None"]
  obtain e r where
    e: "embed (embeddings self) ?ids t1 0 = Inr e"
    and r: "encoder self e ext (replicate (nat (num_hidden_layers (config self))) None)
                  (if is_decoder (config self) then use_cache (config self) else False)
                  (output_attentions (config self)) (output_hidden_states (config self))
                  (use_return_dict (config self)) = Inr (EncoderModelOutput r)"
    and hs: "shape (enc_last_hidden_state r) = shape ?ids @ [H]"
    by blast
  obtain po where po: "chunk_pooled_output (pooler self) (enc_last_hidden_state r) = Inr po"
  proof (cases "pooler self")
    case None
    then show ?thesis using that by (simp add: chunk_pooled_output_def)
  next
    case (Some p)
    with pool obtain y where "p (enc_last_hidden_state r) = Inr y" by auto
    with Some show ?thesis using that by (simp add: chunk_pooled_output_def bind_result_def)
  qed
  have hs': "shape (enc_last_hidden_state r) = [b, L, H]" using hs by simp
  let ?d = "\<lparr>shape = [b, H],
             data = concat (map (\<lambda>i. take (prod_list [H]) (drop (i * L * prod_list [H]) (data (enc_last_hidden_state r))))
                       [0 ..< b])\<rparr>"
  have de: "dense_embedding (enc_last_hidden_state r) (resolve_attention_mask (Some ?am) b (L + 0)) = Inr ?d"
    using hs' L by (simp add: dense_embedding_def Let_def)
  have ec: "encode_chunk self ?ids (Some ?am) b L = Inr (TensorOutput (normalize ?d))"
    using t1 ext hm e r po de name unfolding encode_chunk_def Let_def
    by (simp add: bind_result_def encoder_outputs_first_def chunk_model_output_def)
  have "forward_chunk self input_ids meta s bs = Inr (b, TensorOutput (normalize ?d))"
    unfolding forward_chunk_def by (simp add: ids am ec bind_result_def)
  moreover have "shape (normalize ?d) = [b, H]" by (simp add: normalize_def)
  ultimately show ?thesis unfolding b_def by blast
qed

lemma as_tensors_map_TensorOutput: "as_tensors (map TensorOutput ts) = Inr ts"
  by (induction ts) (simp_all add: bind_result_def)

lemma torch_cat_same_tail:
  assumes ne: "ts \<noteq> []" and shs: "list_all (\<lambda>t. \<exists>b. shape t = [b, H]) ts"
  shows "\<exists>r. torch_cat (map TensorOutput ts :: 'x chunk_output list) = Inr r \<and>
             shape r = [sum_list (map (\<lambda>t. hd (shape t)) ts), H]"
proof -
  from ne obtain t rest where ts: "ts = t # rest" by (cases ts) auto
  from shs ts obtain b where t: "shape t = [b, H]" by auto
  have at: "as_tensors (map TensorOutput ts :: 'x chunk_output list) = Inr ts"
    by (rule as_tensors_map_TensorOutput)
  have chk: "list_all (\<lambda>u. shape u \<noteq> [] \<and> tl (shape u) = tl (shape t)) ts"
    using shs t by (auto simp: list_all_iff)
  have "torch_cat (map TensorOutput ts :: 'x chunk_output list) =
          Inr \<lparr>shape = sum_list (map (\<lambda>u. hd (shape u)) ts) # tl (shape t),
               data = concat (map data ts)\<rparr>"
    unfolding torch_cat_def at using chk t by (simp add: bind_result_def ts)
  then show ?thesis using t by simp
qed

lemma forward_loop_bge_m3_prefix:
  assumes name: "name_or_path (config self) = ''BAAI/bge-m3''"
    and sh: "shape input_ids = [n, L]" and L: "0 < L"
    and slot: "shape (slot_mapping meta) = [n, L]"
    and tti: "case token_type_ids (embeddings self) of None \<Rightarrow> True
              | Some buf \<Rightarrow> \<exists>P. shape buf = [1, P] \<and> L \<le> P"
    and enc: "\<forall>ids tti ext hm. \<exists>e r.
                embed (embeddings self) ids tti 0 = Inr e \<and>
                encoder self e ext hm
                  (if is_decoder (config self) then use_cache (config self) else False)
                  (output_attentions (config self)) (output_hidden_states (config self))
                  (use_return_dict (config self)) = Inr (EncoderModelOutput r) \<and>
                shape (enc_last_hidden_state r) = shape ids @ [H]"
    and pool: "case pooler self of None \<Rightarrow> True | Some p \<Rightarrow> \<forall>h. \<exists>y. p h = Inr y"
  shows "k \<le> (n + 11) div 12 \<Longrightarrow>
         \<exists>bs ts. forward_loop self input_ids meta (take k (py_range n 12)) 12 [] =
                    Inr (bs, map TensorOutput ts) \<and>
                  length ts = k \<and>
                  list_all (\<lambda>t. \<exists>b. shape t = [b, H]) ts \<and>
                  sum_list (map (\<lambda>t. hd (shape t)) ts) = min (12 * k) n"
proof (induction k)
  case 0
  show ?case by (intro exI [of _ 12] exI [of _ "[]"]) simp
next
  case (Suc k)
  have k: "k < (n + 11) div 12" using Suc.prems by simp
  then have lt: "12 * k < n" by (rule lt_of_ceil12)
  have tk: "take (Suc k) (py_range n 12) = take k (py_range n 12) @ [12 * k]"
    using k by (simp add: take_Suc_conv_app_nth length_py_range nth_py_range)
  from Suc.IH k obtain bs0 ts where
    pre: "forward_loop self input_ids meta (take k (py_range n 12)) 12 [] =
            Inr (bs0, map TensorOutput ts)"
    and len: "length ts = k"
    and shs: "list_all (\<lambda>t. \<exists>b. shape t = [b, H]) ts"
    and sm: "sum_list (map (\<lambda>t. hd (shape t)) ts) = min (12 * k) n"
    by auto
  from forward_loop_prefix [OF sh _ pre] k
  have "bs0 = (if k = 0 then 12 else min 12 (n - 12 * (k - 1)))" by simp
  then have bs0: "bs0 = 12" using lt by (cases k) auto
  from forward_chunk_bge_m3_ok [OF name sh L slot tti enc pool, of "12 * k" 12]
  obtain t where
    fc: "forward_chunk self input_ids meta (12 * k) 12 =
           Inr (min (12 * k + 12) n - min (12 * k) n, TensorOutput t)"
    and st: "shape t = [min (12 * k + 12) n - min (12 * k) n, H]"
    by blast
  have "forward_loop self input_ids meta (take (Suc k) (py_range n 12)) 12 [] =
          Inr (min (12 * k + 12) n - min (12 * k) n, map TensorOutput (ts @ [t]))"
    unfolding tk forward_loop_append by (simp add: pre bs0 fc bind_result_def)
  moreover have "length (ts @ [t]) = Suc k" using len by simp
  moreover have "list_all (\<lambda>t. \<exists>b. shape t = [b, H]) (ts @ [t])" using shs st by simp
  moreover have "sum_list (map (\<lambda>t. hd (shape t)) (ts @ [t])) = min (12 * Suc k) n"
    using sm st lt by simp
  ultimately show ?case by blast
qed

lemma forward_bge_m3_returns:
  fixes self :: "('q, 'x) xlm_roberta_model"
  assumes name: "name_or_path (config self) = ''BAAI/bge-m3''"
    and sh: "shape input_ids = [n, L]" and n: "0 < n" and L: "0 < L"
    and slot: "shape (slot_mapping meta) = [n, L]"
    and tti: "case token_type_ids (embeddings self) of None \<Rightarrow> True
              | Some buf \<Rightarrow> \<exists>P. shape buf = [1, P] \<and> L \<le> P"
    and enc: "\<forall>ids tti ext hm. \<exists>e r.
                embed (embeddings self) ids tti 0 = Inr e \<and>
                encoder self e ext hm
                  (if is_decoder (config self) then use_cache (config self) else False)
                  (output_attentions (config self)) (output_hidden_states (config self))
                  (use_return_dict (config self)) = Inr (EncoderModelOutput r) \<and>
                shape (enc_last_hidden_state r) = shape ids @ [H]"
    and pool: "case pooler self of None \<Rightarrow> True | Some p \<Rightarrow> \<forall>h. \<exists>y. p h = Inr y"
  shows "\<exists>r. forward self input_ids positions kv_caches meta = Inr r \<and> shape r = [n, H]"
proof -
  let ?m = "(n + 11) div 12"
  have full: "take ?m (py_range n 12) = py_range n 12" by (simp add: length_py_range)
  from forward_loop_bge_m3_prefix [OF name sh L slot tti enc pool, of ?m] full
  obtain bs ts where
    run: "forward_loop self input_ids meta (py_range n 12) 12 [] = Inr (bs, map TensorOutput ts)"
    and len: "length ts = ?m"
    and shs: "list_all (\<lambda>t. \<exists>b. shape t = [b, H]) ts"
    and sm: "sum_list (map (\<lambda>t. hd (shape t)) ts) = min (12 * ?m) n"
    by auto
  have "0 < ?m" using n by simp
  then have ne: "ts \<noteq> []" using len by auto
  have "n \<le> 12 * ?m" by arith
  then have sm': "sum_list (map (\<lambda>t. hd (shape t)) ts) = n" using sm by simp
  from torch_cat_same_tail [OF ne shs] sm' obtain r where
    "torch_cat (map TensorOutput ts :: 'x chunk_output list) = Inr r" "shape r = [n, H]" by auto
  then show ?thesis using sh run by (auto simp: forward_def bind_result_def)
qed

lemma forward_bge_m3_returns_demo_n:
  assumes "0 < n"
  shows "\<exists>r. forward (demo_model ''BAAI/bge-m3'' 1) \<lparr>shape = [n, 2], data = xs\<rparr> () ()
          \<lparr>slot_mapping = \<lparr>shape = [n, 2], data = ys\<rparr>\<rparr> = Inr r \<and> shape r = [n, 1]"
proof (rule forward_bge_m3_returns)
  show "name_or_path (config (demo_model ''BAAI/bge-m3'' 1)) = ''BAAI/bge-m3''"
    by (simp add: demo_defs)
  show "shape \<lparr>shape = [n, 2], data = xs\<rparr> = [n, 2]" by simp
  show "0 < n" by (rule assms)
  show "0 < (2 :: nat)" by simp
  show "shape (slot_mapping \<lparr>slot_mapping = \<lparr>shape = [n, 2], data = ys\<rparr>\<rparr>) = [n, 2]" by simp
  show "case token_type_ids (embeddings (demo_model ''BAAI/bge-m3'' 1)) of None \<Rightarrow> True
        | Some buf \<Rightarrow> \<exists>P. shape buf = [1, P] \<and> 2 \<le> P"
    by (simp add: demo_defs)
  show "\<forall>ids tti ext hm. \<exists>e r.
          embed (embeddings (demo_model ''BAAI/bge-m3'' 1)) ids tti 0 = Inr e \<and>
          encoder (demo_model ''BAAI/bge-m3'' 1) e ext hm
            (if is_decoder (config (demo_model ''BAAI/bge-m3'' 1))
             then use_cache (config (demo_model ''BAAI/bge-m3'' 1)) else False)
            (output_attentions (config (demo_model ''BAAI/bge-m3'' 1)))
            (output_hidden_states (config (demo_model ''BAAI/bge-m3'' 1)))
            (use_return_dict (config (demo_model ''BAAI/bge-m3'' 1))) = Inr (EncoderModelOutput r) \<and>
          shape (enc_last_hidden_state r) = shape ids @ [1]"
    by (simp add: demo_defs)
  show "case pooler (demo_model ''BAAI/bge-m3'' 1) of None \<Rightarrow> True
        | Some p \<Rightarrow> \<forall>h. \<exists>y. p h = Inr y"
    by (simp add: demo_defs)
qed

text \<open>
  C5: for an input of shape \<open>(n, L)\<close>, \<open>forward\<close> is the loop over the start indices
  \<open>range(0, n, 12)\<close> with \<open>batch_size\<close> initially 12, followed by the concatenation.
  Whenever the loop completes (in particular whenever \<open>forward\<close> returns), the number of
  iterations is \<open>n / 12\<close> when 12 divides \<open>n\<close>; otherwise it is one more and the last
  slice, whose size the loop leaves in \<open>batch_size\<close>, has \<open>n mod 12\<close> rows. Iteration
  \<open>k\<close> slices the rows from \<open>12 k\<close> up to \<open>12 k + 12\<close>, clipped to \<open>n\<close>.
\<close>

theorem forward_chunks_of_12:
  assumes sh: "shape input_ids = [n, L]"
  shows "forward self input_ids positions kv_caches meta =
           bind_result (forward_loop self input_ids meta (py_range n 12) 12 [])
             (\<lambda>(batch_size, tensor_list). torch_cat tensor_list) \<and>
         (\<forall>r. forward self input_ids positions kv_caches meta = Inr r \<longrightarrow>
            (\<exists>bs tlist.
               forward_loop self input_ids meta (py_range n 12) 12 [] = Inr (bs, tlist) \<and>
               torch_cat tlist = Inr r)) \<and>
         (\<forall>bs tlist.
            forward_loop self input_ids meta (py_range n 12) 12 [] = Inr (bs, tlist) \<longrightarrow>
            (12 dvd n \<longrightarrow> length tlist = n div 12) \<and>
            (\<not> 12 dvd n \<longrightarrow> length tlist = n div 12 + 1 \<and> bs = n mod 12) \<and>
            (\<forall>k < length tlist. \<exists>bs_k tl_k.
               forward_loop self input_ids meta (take k (py_range n 12)) 12 [] = Inr (bs_k, tl_k) \<and>
               length tl_k = k \<and>
               slice_rows input_ids (py_range n 12 ! k) (py_range n 12 ! k + bs_k) =
                 Inr \<lparr>shape = [min 12 (n - 12 * k), L],
                      data = take (min 12 (n - 12 * k) * L) (drop (12 * k * L) (data input_ids))\<rparr>))"
proof (intro conjI allI impI)
  show fw: "forward self input_ids positions kv_caches meta =
           bind_result (forward_loop self input_ids meta (py_range n 12) 12 [])
             (\<lambda>(batch_size, tensor_list). torch_cat tensor_list)"
    using sh by (simp add: forward_def)
  fix r
  assume "forward self input_ids positions kv_caches meta = Inr r"
  then show "\<exists>bs tlist.
               forward_loop self input_ids meta (py_range n 12) 12 [] = Inr (bs, tlist) \<and>
               torch_cat tlist = Inr r"
    unfolding fw bind_result_Inr_iff by auto
next
  fix bs tlist
  assume run: "forward_loop self input_ids meta (py_range n 12) 12 [] = Inr (bs, tlist)"
  note old = forward_loop_chunks_of_12 [OF sh run]
  { assume "12 dvd n" with old show "length tlist = n div 12" by blast }
  { assume "\<not> 12 dvd n" with old show "length tlist = n div 12 + 1" "bs = n mod 12" by blast+ }
  { fix k assume "k < length tlist"
    with old show "\<exists>bs_k tl_k.
               forward_loop self input_ids meta (take k (py_range n 12)) 12 [] = Inr (bs_k, tl_k) \<and>
               length tl_k = k \<and>
               slice_rows input_ids (py_range n 12 ! k) (py_range n 12 ! k + bs_k) =
                 Inr \<lparr>shape = [min 12 (n - 12 * k), L],
                      data = take (min 12 (n - 12 * k) * L) (drop (12 * k * L) (data input_ids))\<rparr>"
      by blast }
qed

theorem forward_chunks_of_12_witness:
  "(\<exists>r bs tlist.
      forward (demo_model ''BAAI/bge-m3'' 1) \<lparr>shape = [13, 2], data = replicate 26 7\<rparr> () ()
        \<lparr>slot_mapping = \<lparr>shape = [13, 2], data = replicate 26 0\<rparr>\<rparr> = Inr r \<and>
      forward_loop (demo_model ''BAAI/bge-m3'' 1) \<lparr>shape = [13, 2], data = replicate 26 7\<rparr>
        \<lparr>slot_mapping = \<lparr>shape = [13, 2], data = replicate 26 0\<rparr>\<rparr> (py_range 13 12) 12 []
        = Inr (bs, tlist) \<and>
      torch_cat tlist = Inr r \<and> shape r = [13, 1] \<and> length tlist = 2 \<and> bs = 1) \<and>
   (\<exists>r bs tlist.
      forward (demo_model ''BAAI/bge-m3'' 1) \<lparr>shape = [12, 2], data = replicate 24 7\<rparr> () ()
        \<lparr>slot_mapping = \<lparr>shape = [12, 2], data = replicate 24 0\<rparr>\<rparr> = Inr r \<and>
      forward_loop (demo_model ''BAAI/bge-m3'' 1) \<lparr>shape = [12, 2], data = replicate 24 7\<rparr>
        \<lparr>slot_mapping = \<lparr>shape = [12, 2], data = replicate 24 0\<rparr>\<rparr> (py_range 12 12) 12 []
        = Inr (bs, tlist) \<and>
      torch_cat tlist = Inr r \<and> shape r = [12, 1] \<and> length tlist = 1)"
proof -
  let ?self = "demo_model ''BAAI/bge-m3'' 1 :: (unit, unit) xlm_roberta_model"
  let ?i13 = "\<lparr>shape = [13, 2], data = replicate 26 (7 :: int)\<rparr>"
  let ?m13 = "\<lparr>slot_mapping = \<lparr>shape = [13, 2], data = replicate 26 0\<rparr>\<rparr>"
  let ?i12 = "\<lparr>shape = [12, 2], data = replicate 24 (7 :: int)\<rparr>"
  let ?m12 = "\<lparr>slot_mapping = \<lparr>shape = [12, 2], data = replicate 24 0\<rparr>\<rparr>"
  have s13: "shape ?i13 = [13, 2]" and s12: "shape ?i12 = [12, 2]" by simp_all
  have nd: "\<not> 12 dvd (13 :: nat)" and d: "12 dvd (12 :: nat)" by simp_all
  have p13: "0 < (13 :: nat)" and p12: "0 < (12 :: nat)" by simp_all
  from forward_bge_m3_returns_demo_n [OF p13, of "replicate 26 7" "replicate 26 0"]
  obtain r13 where r13: "forward ?self ?i13 () () ?m13 = Inr r13" "shape r13 = [13, 1]" by blast
  from forward_bge_m3_returns_demo_n [OF p12, of "replicate 24 7" "replicate 24 0"]
  obtain r12 where r12: "forward ?self ?i12 () () ?m12 = Inr r12" "shape r12 = [12, 1]" by blast
  note t13 = forward_chunks_of_12 [OF s13, of ?self "()" "()" ?m13]
  note t12 = forward_chunks_of_12 [OF s12, of ?self "()" "()" ?m12]
  from t13 r13(1) obtain b13 l13 where
    l13: "forward_loop ?self ?i13 ?m13 (py_range 13 12) 12 [] = Inr (b13, l13)"
    "torch_cat l13 = Inr r13" by blast
  from t13 l13(1) nd have c13: "length l13 = 13 div 12 + 1" "b13 = 13 mod 12" by blast+
  from t12 r12(1) obtain b12 l12 where
    l12: "forward_loop ?self ?i12 ?m12 (py_range 12 12) 12 [] = Inr (b12, l12)"
    "torch_cat l12 = Inr r12" by blast
  from t12 l12(1) d have c12: "length l12 = 12 div 12" by blast
  have a: "\<exists>r bs tlist. forward ?self ?i13 () () ?m13 = Inr r \<and>
      forward_loop ?self ?i13 ?m13 (py_range 13 12) 12 [] = Inr (bs, tlist) \<and>
      torch_cat tlist = Inr r \<and> shape r = [13, 1] \<and> length tlist = 2 \<and> bs = 1"
    using r13 l13 c13 by (intro exI [of _ r13] exI [of _ b13] exI [of _ l13]) simp
  have b: "\<exists>r bs tlist. forward ?self ?i12 () () ?m12 = Inr r \<and>
      forward_loop ?self ?i12 ?m12 (py_range 12 12) 12 [] = Inr (bs, tlist) \<and>
      torch_cat tlist = Inr r \<and> shape r = [12, 1] \<and> length tlist = 1"
    using r12 l12 c12 by (intro exI [of _ r12] exI [of _ b12] exI [of _ l12]) simp
  from a b show ?thesis by blast
qed

text \<open>
  C1 does not hold for model names other than \<open>BAAI/bge-m3\<close>: the loop then appends
  model output objects, not tensors, and \<open>torch.cat\<close> rejects them. For such a name
  and an input with at least one row, \<open>forward\<close> never returns: either an iteration
  raises, or the loop completes and the concatenation raises \<open>TypeError\<close>.
\<close>

theorem forward_other_name_raises:
  assumes name: "name_or_path (config self) \<noteq> ''BAAI/bge-m3''"
    and sh: "shape input_ids = n # rest"
    and n: "0 < n"
  shows "(\<exists>e. forward self input_ids positions kv_caches meta = Inl e) \<and>
         (\<forall>bs tlist. forward_loop self input_ids meta (py_range n 12) 12 [] = Inr (bs, tlist)
            \<longrightarrow> forward self input_ids positions kv_caches meta = Inl TypeError)"
proof -
  have fw: "forward self input_ids positions kv_caches meta =
          bind_result (forward_loop self input_ids meta (py_range n 12) 12 [])
            (\<lambda>(batch_size, tensor_list). torch_cat tensor_list)"
    using sh by (simp add: forward_def)
  have ok: "forward self input_ids positions kv_caches meta = Inl TypeError"
    if run: "forward_loop self input_ids meta (py_range n 12) 12 [] = Inr (bs, tlist)"
    for bs tlist
  proof -
    have "0 < length (py_range n 12)" using n by (simp add: length_py_range)
    then obtain x xs where pr: "py_range n 12 = x # xs" by (cases "py_range n 12") auto
    from run obtain b1 out where
      fc: "forward_chunk self input_ids meta x 12 = Inr (b1, out)"
      and rst: "forward_loop self input_ids meta xs b1 [out] = Inr (bs, tlist)"
      unfolding pr by (auto simp: bind_result_Inr_iff)
    from forward_chunk_inversion [OF fc] obtain ids am L where
      "encode_chunk self ids am b1 L = Inr out" by blast
    from encode_chunk_inversion [OF this] name obtain m where "out = ModelOutput m" by auto
    moreover from forward_loop_outputs [OF rst] obtain more where "tlist = [out] @ more" by blast
    ultimately have "torch_cat tlist = Inl TypeError"
      by (simp add: torch_cat_def bind_result_def)
    then show ?thesis using fw run by (simp add: bind_result_def)
  qed
  have "\<exists>e. forward self input_ids positions kv_caches meta = Inl e"
  proof (cases "forward_loop self input_ids meta (py_range n 12) 12 []")
    case (Inl e)
    then show ?thesis using fw by (simp add: bind_result_def)
  next
    case (Inr r)
    obtain bs tlist where "r = (bs, tlist)" by (cases r)
    with Inr ok show ?thesis by blast
  qed
  with ok show ?thesis by blast
qed

theorem forward_other_name_raises_witness:
  "forward (demo_model ''xlm-roberta-base'' 1) \<lparr>shape = [1, 1], data = [5]\<rparr> () ()
     \<lparr>slot_mapping = \<lparr>shape = [1, 1], data = [0]\<rparr>\<rparr> = Inl TypeError"
proof -
  let ?self = "demo_model ''xlm-roberta-base'' 1 :: (unit, unit) xlm_roberta_model"
  let ?ids = "\<lparr>shape = [1, 1], data = [5 :: int]\<rparr>"
  let ?meta = "\<lparr>slot_mapping = \<lparr>shape = [1, 1], data = [0]\<rparr>\<rparr>"
  have a: "name_or_path (config ?self) \<noteq> ''BAAI/bge-m3''" by (simp add: demo_defs)
  have b: "shape ?ids = 1 # [1]" by simp
  have c: "forward_loop ?self ?ids ?meta (py_range 1 12) 12 [] =
      Inr (1, [ModelOutput \<lparr>last_hidden_state = \<lparr>shape = [1, 1, 1], data = [5]\<rparr>,
      pooler_output = None, past_key_values = (), hidden_states = (), attentions = (),
      cross_attentions = ()\<rparr>])"
    using demo_other_name_chunk by (simp add: py_range_def upt_rec bind_result_def)
  have d: "0 < (1 :: nat)" by simp
  from forward_other_name_raises [OF a b d, of "()" "()" ?meta] c show ?thesis by blast
qed

end
